theory Spec2Isabelle
  imports Complex_Main
begin

section \<open>Zebec partners card SDK: shallow embedding\<close>

text \<open>
  The embedding follows \<^verbatim>\<open>src/utils.ts\<close>, \<^verbatim>\<open>src/types.ts\<close>, \<^verbatim>\<open>src/chains.ts\<close>
  and \<^verbatim>\<open>src/services.ts\<close>. A JavaScript string is a \<^typ>\<open>string\<close>: one \<^typ>\<open>char\<close> per
  UTF-16 code unit, restricted to the code units below 256, so that \<^const>\<open>length\<close> is the
  \<^verbatim>\<open>.length\<close> of the source. A thrown exception is the \<open>Inl\<close> of a sum.
\<close>

subsection \<open>Errors (\<^verbatim>\<open>src/errors.ts\<close> and the plain \<^verbatim>\<open>Error\<close>s of the services)\<close>

text \<open>
  \<open>Error m\<close> is \<^verbatim>\<open>new Error(m)\<close>. \<open>ChainIdNotSupported n\<close> is the plain \<^verbatim>\<open>Error\<close> of
  \<^verbatim>\<open>parseSupportedChain\<close>, whose message embeds the number. \<open>External x\<close> is whatever an
  outside collaborator (axios, ethers, the chain node) threw; the services rethrow it
  unchanged.
\<close>

datatype error =
    Error string
  | ChainIdNotSupported int
  | ValidationError string
  | InvalidEmailError string
  | NotEnoughBalanceError string string
  | CardPurchaseAmountOutOfRangeError string string
  | DailyCardPurchaseLimitExceedError string string
  | External string

subsection \<open>\<^verbatim>\<open>src/utils.ts\<close>\<close>

definition lowerLetters :: string where
  "lowerLetters = ''abcdefghijklmnopqrstuvwxyz''"

definition upperLetters :: string where
  "upperLetters = ''ABCDEFGHIJKLMNOPQRSTUVWXYZ''"

definition digitChars :: string where
  "digitChars = ''0123456789''"

text \<open>The character class \<^verbatim>\<open>[a-zA-Z]\<close>.\<close>

definition isLetter :: "char \<Rightarrow> bool" where
  "isLetter c = (c \<in> set (lowerLetters @ upperLetters))"

text \<open>The character class \<^verbatim>\<open>[a-zA-Z0-9]\<close>.\<close>

definition isAlphaNumChar :: "char \<Rightarrow> bool" where
  "isAlphaNumChar c = (c \<in> set (lowerLetters @ upperLetters @ digitChars))"

text \<open>The character class \<^verbatim>\<open>[a-zA-Z0-9._+-]\<close> of the local part of an address.\<close>

definition isLocalChar :: "char \<Rightarrow> bool" where
  "isLocalChar c = (c \<in> set (lowerLetters @ upperLetters @ digitChars @ ''._+-''))"

text \<open>The character class \<^verbatim>\<open>[a-zA-Z0-9.-]\<close> of the domain.\<close>

definition isDomainChar :: "char \<Rightarrow> bool" where
  "isDomainChar c = (c \<in> set (lowerLetters @ upperLetters @ digitChars @ ''.-''))"

text \<open>Every way of cutting a string in two: the choices a concatenation of a regular
  expression has.\<close>

fun splits :: "'a list \<Rightarrow> ('a list \<times> 'a list) list" where
  "splits [] = [([], [])]"
| "splits (x # xs) = ([], x # xs) # map (\<lambda>(l, r). (x # l, r)) (splits xs)"

text \<open>\<^verbatim>\<open>[a-zA-Z0-9.-]+\.[a-zA-Z]{2,10}$\<close>: a non-empty domain, a dot, two to ten letters,
  the end of the input.\<close>

definition matchesDomainTld :: "string \<Rightarrow> bool" where
  "matchesDomainTld v =
     list_ex (\<lambda>(d, r). d \<noteq> [] \<and> list_all isDomainChar d \<and>
        (case r of [] \<Rightarrow> False
         | c # t \<Rightarrow> c = CHR ''.'' \<and> 2 \<le> length t \<and> length t \<le> 10 \<and> list_all isLetter t))
       (splits v)"

text \<open>\<^verbatim>\<open>/^[a-zA-Z0-9._+-]+@[a-zA-Z0-9.-]+\.[a-zA-Z]{2,10}$/.test(value)\<close>\<close>

definition isEmailValid :: "string \<Rightarrow> bool" where
  "isEmailValid v =
     list_ex (\<lambda>(l, r). l \<noteq> [] \<and> list_all isLocalChar l \<and>
        (case r of [] \<Rightarrow> False | c # rest \<Rightarrow> c = CHR ''@'' \<and> matchesDomainTld rest))
       (splits v)"

text \<open>\<^verbatim>\<open>/^[a-zA-Z0-9]+$/.test(value)\<close>\<close>

definition isAlphaNumeric :: "string \<Rightarrow> bool" where
  "isAlphaNumeric v = (v \<noteq> [] \<and> list_all isAlphaNumChar v)"

definition hasMinLen :: "string \<Rightarrow> nat \<Rightarrow> bool" where
  "hasMinLen v len = (length v \<ge> len)"

definition hasMaxLen :: "string \<Rightarrow> nat \<Rightarrow> bool" where
  "hasMaxLen v len = (length v \<le> len)"

text \<open>\<^verbatim>\<open>hasLen(value, min, max?)\<close>: \<^verbatim>\<open>if (max)\<close> is false for an absent \<open>max\<close> and for 0.\<close>

definition hasLen :: "string \<Rightarrow> nat \<Rightarrow> nat option \<Rightarrow> bool" where
  "hasLen v mn mx =
     (case mx of
        None \<Rightarrow> hasMinLen v mn
      | Some m \<Rightarrow> if m \<noteq> 0 then hasMinLen v mn \<and> hasMaxLen v m else hasMinLen v mn)"

subsection \<open>\<^verbatim>\<open>src/types.ts\<close>: the recipient\<close>

text \<open>The \<open>code\<close> column of \<^verbatim>\<open>ALL_COUNTRIES_AND_CODE\<close>, in the order of the source; the
  \<open>name\<close> column is never read.\<close>

definition ALL_COUNTRIES_AND_CODE :: "string list" where
  "ALL_COUNTRIES_AND_CODE =
    [
     ''ABW'', ''AFG'', ''AGO'', ''AIA'', ''ALA'', ''ALB'', ''AND'', ''ARE'', ''ARG'', ''ARM'',
     ''ASM'', ''ATA'', ''ATF'', ''ATG'', ''AUS'', ''AUT'', ''AZE'', ''BDI'', ''BEL'', ''BEN'',
     ''BES'', ''BFA'', ''BGD'', ''BGR'', ''BHR'', ''BHS'', ''BIH'', ''BLM'', ''BLR'', ''BLZ'',
     ''BMU'', ''BOL'', ''BRA'', ''BRB'', ''BRN'', ''BTN'', ''BVT'', ''BWA'', ''CAF'', ''CAN'',
     ''CCK'', ''CHE'', ''CHL'', ''CHN'', ''CIV'', ''CMR'', ''COD'', ''COG'', ''COK'', ''COL'',
     ''COM'', ''CPV'', ''CRI'', ''CUB'', ''CUW'', ''CXR'', ''CYM'', ''CYP'', ''CZE'', ''DEU'',
     ''DJI'', ''DMA'', ''DNK'', ''DOM'', ''DZA'', ''ECU'', ''EGY'', ''ERI'', ''ESH'', ''ESP'',
     ''EST'', ''ETH'', ''FIN'', ''FJI'', ''FLK'', ''FRA'', ''FRO'', ''FSM'', ''GAB'', ''GBR'',
     ''GEO'', ''GGY'', ''GHA'', ''GIB'', ''GIN'', ''GLP'', ''GMB'', ''GNB'', ''GNQ'', ''GRC'',
     ''GRD'', ''GRL'', ''GTM'', ''GUF'', ''GUM'', ''GUY'', ''HKG'', ''HMD'', ''HND'', ''HRV'',
     ''HTI'', ''HUN'', ''IDN'', ''IMN'', ''IND'', ''IOT'', ''IRL'', ''IRN'', ''IRQ'', ''ISL'',
     ''ISR'', ''ITA'', ''JAM'', ''JEY'', ''JOR'', ''JPN'', ''KAZ'', ''KEN'', ''KGZ'', ''KHM'',
     ''KIR'', ''KNA'', ''KOR'', ''KWT'', ''LAO'', ''LBN'', ''LBR'', ''LBY'', ''LCA'', ''LIE'',
     ''LKA'', ''LSO'', ''LTU'', ''LUX'', ''LVA'', ''MAC'', ''MAF'', ''MAR'', ''MCO'', ''MDA'',
     ''MDG'', ''MDV'', ''MEX'', ''MHL'', ''MKD'', ''MLI'', ''MLT'', ''MMR'', ''MNE'', ''MNG'',
     ''MNP'', ''MOZ'', ''MRT'', ''MSR'', ''MTQ'', ''MUS'', ''MWI'', ''MYS'', ''MYT'', ''NAM'',
     ''NCL'', ''NER'', ''NFK'', ''NGA'', ''NIC'', ''NIU'', ''NLD'', ''NOR'', ''NPL'', ''NRU'',
     ''NZL'', ''OMN'', ''PAK'', ''PAN'', ''PCN'', ''PER'', ''PHL'', ''PLW'', ''PNG'', ''POL'',
     ''PRI'', ''PRK'', ''PRT'', ''PRY'', ''PSE'', ''PYF'', ''QAT'', ''REU'', ''ROU'', ''RUS'',
     ''RWA'', ''SAU'', ''SDN'', ''SEN'', ''SGP'', ''SGS'', ''SHN'', ''SJM'', ''SLB'', ''SLE'',
     ''SLV'', ''SMR'', ''SOM'', ''SPM'', ''SRB'', ''SSD'', ''STP'', ''SUR'', ''SVK'', ''SVN'',
     ''SWE'', ''SWZ'', ''SXM'', ''SYC'', ''SYR'', ''TCA'', ''TCD'', ''TGO'', ''THA'', ''TJK'',
     ''TKL'', ''TKM'', ''TLS'', ''TON'', ''TTO'', ''TUN'', ''TUR'', ''TUV'', ''TWN'', ''TZA'',
     ''UGA'', ''UKR'', ''UMI'', ''URY'', ''USA'', ''UZB'', ''VAT'', ''VCT'', ''VEN'', ''VGB'',
     ''VIR'', ''VNM'', ''VUT'', ''WLF'', ''WSM'', ''YEM'', ''ZAF'', ''ZMB'', ''ZWE'']"

text \<open>\<^verbatim>\<open>CountryCode\<close> is a type of strings; at run time any string can stand there.\<close>

type_synonym CountryCode = string

text \<open>The class \<^verbatim>\<open>Recipient\<close>. The field \<open>address2\<close> is declared \<^verbatim>\<open>address2?: string\<close>.\<close>

record Recipient =
  participantId :: string
  firstName :: string
  lastName :: string
  emailAddress :: string
  address1 :: string
  address2 :: "string option"
  city :: string
  state :: string
  postalCode :: string
  countryCode :: CountryCode
  language :: string
  mobilePhone :: string

text \<open>
  \<^verbatim>\<open>Recipient.create\<close>, the checks in the order of the source. The optional argument
  \<^verbatim>\<open>address2?: string\<close> is \<open>None\<close> when omitted. \<^verbatim>\<open>address2 && ...\<close> skips the length
  check for an omitted and for an empty \<open>address2\<close>; \<^verbatim>\<open>address2 ?? "N/A"\<close> replaces only the
  omitted one.
\<close>

definition create ::
  "string \<Rightarrow> string \<Rightarrow> string \<Rightarrow> string \<Rightarrow>
   (string \<Rightarrow> string \<Rightarrow> string \<Rightarrow> string \<Rightarrow>
    (string \<Rightarrow> CountryCode \<Rightarrow> string \<Rightarrow> string option \<Rightarrow> error + Recipient))" where
  "create participantId' firstName' lastName' emailAddress' mobilePhone' language' city' state'
      postalCode' countryCode' address1' address2' =
    (if \<not> hasLen participantId' 1 (Some 20) then
       Inl (ValidationError ''Participants must be of 1 to 20 characters.'')
     else if \<not> isAlphaNumeric participantId' then
       Inl (ValidationError ''Participants must only contains alpha numeric characters'')
     else if \<not> hasLen firstName' 1 (Some 50) then
       Inl (ValidationError ''Firstname must be within 1 to 50 characters.'')
     else if \<not> hasLen lastName' 1 (Some 50) then
       Inl (ValidationError ''Lastname must be within 1 to 50 characters.'')
     else if \<not> hasLen emailAddress' 1 (Some 80) then
       Inl (ValidationError ''Email must be within 1 to 80 characters.'')
     else if \<not> isEmailValid emailAddress' then
       Inl (ValidationError ''Email address must be a valid email.'')
     else if language' = [] then
       Inl (ValidationError ''Language code is required'')
     else if \<not> hasLen mobilePhone' 1 (Some 20) then
       Inl (ValidationError ''Mobile phone number must be within 1 to 20 characters.'')
     else if \<not> hasLen city' 1 (Some 35) then
       Inl (ValidationError ''City must be within 1 to 50 characters.'')
     else if \<not> hasLen state' 1 (Some 50) then
       Inl (ValidationError ''State must be within 1 to 50 characters.'')
     else if List.find (\<lambda>code. code = countryCode') ALL_COUNTRIES_AND_CODE = None then
       Inl (ValidationError ''CountryCode must be a valid supported ISO 3166-1 alpha-3 code'')
     else if \<not> hasLen postalCode' 1 (Some 20) then
       Inl (ValidationError ''Postal code must be within 1 to 20 characters.'')
     else if \<not> hasLen address1' 1 (Some 50) then
       Inl (ValidationError ''Address line 1 must be within 1 to 50 characters.'')
     else if (case address2' of None \<Rightarrow> False | Some a \<Rightarrow> a \<noteq> [] \<and> \<not> hasLen a 1 (Some 50)) then
       Inl (ValidationError ''Address line 2 must be within 1 to 50 characters.'')
     else
       Inr \<lparr> participantId = participantId', firstName = firstName', lastName = lastName',
             emailAddress = emailAddress', address1 = address1',
             address2 = Some (case address2' of None \<Rightarrow> ''N/A'' | Some a \<Rightarrow> a),
             city = city', state = state', postalCode = postalCode',
             countryCode = countryCode', language = language', mobilePhone = mobilePhone' \<rparr>)"

subsection \<open>\<^verbatim>\<open>src/chains.ts\<close>\<close>

text \<open>The numeric enum \<^verbatim>\<open>SupportedEvmChain\<close> and the number each member stands for.\<close>

datatype SupportedEvmChain = Mainnet | Sepolia | Base | Bsc | BscTestnet | Polygon | PolygonAmoy

fun chainValue :: "SupportedEvmChain \<Rightarrow> int" where
  "chainValue Mainnet = 1"
| "chainValue Sepolia = 11155111"
| "chainValue Base = 8453"
| "chainValue Bsc = 56"
| "chainValue BscTestnet = 97"
| "chainValue Polygon = 137"
| "chainValue PolygonAmoy = 80002"

definition parseSupportedChain :: "int \<Rightarrow> error + SupportedEvmChain" where
  "parseSupportedChain chainId =
     (if chainId = 1 then Inr Mainnet
      else if chainId = 11155111 then Inr Sepolia
      else if chainId = 8453 then Inr Base
      else if chainId = 56 then Inr Bsc
      else if chainId = 97 then Inr BscTestnet
      else if chainId = 137 then Inr Polygon
      else if chainId = 80002 then Inr PolygonAmoy
      else Inl (ChainIdNotSupported chainId))"

definition TESTNET_CHAINIDS :: "SupportedEvmChain list" where
  "TESTNET_CHAINIDS = [BscTestnet, PolygonAmoy, Sepolia]"

subsection \<open>JavaScript numbers and dates\<close>

text \<open>
  A \<^verbatim>\<open>number\<close> of the source whose value the code only compares or forwards. A finite
  double is the real number it stands for.
\<close>

datatype number = NaN | PosInfinity | NegInfinity | Num real

text \<open>\<^verbatim>\<open>a !== b\<close> on numbers: \<^verbatim>\<open>NaN\<close> differs from everything, itself included.\<close>

definition strictNotEqual :: "number \<Rightarrow> number \<Rightarrow> bool" where
  "strictNotEqual a b = (a = NaN \<or> b = NaN \<or> a \<noteq> b)"

text \<open>
  A \<^verbatim>\<open>Date\<close> object: its time value in milliseconds since the epoch, or the invalid date.
  \<open>newDate t\<close> is \<^verbatim>\<open>new Date(Number(t))\<close> for an integer \<open>t\<close>: the constructor clips a time
  value beyond 8.64e15 ms to \<^verbatim>\<open>NaN\<close>. (Every integer within the bound is a double, and
  rounding an integer beyond the bound to a double leaves it beyond the bound.)
\<close>

datatype Date = InvalidDate | DateOf int

definition newDate :: "int \<Rightarrow> Date" where
  "newDate t = (if \<bar>t\<bar> \<le> 8640000000000000 then DateOf t else InvalidDate)"

definition msPerDay :: int where
  "msPerDay = 86400000"

text \<open>ECMAScript's \<open>Day(t)\<close> and \<open>WeekDay(t)\<close>: day 0 is Thursday, 1 January 1970.\<close>

definition Day :: "int \<Rightarrow> int" where
  "Day t = t div msPerDay"

definition WeekDay :: "int \<Rightarrow> int" where
  "WeekDay t = (Day t + 4) mod 7"

text \<open>
  The proleptic Gregorian date of a day number, as (year, month from 0, day of the month
  from 1): ECMAScript's \<open>YearFromTime\<close>, \<open>MonthFromTime\<close> and \<open>DateFromTime\<close>, computed by
  counting days in 400-year eras that start on 1 March.
\<close>

definition civilFromDays :: "int \<Rightarrow> int \<times> int \<times> int" where
  "civilFromDays z =
     (let z' = z + 719468;
          era = z' div 146097;
          doe = z' mod 146097;
          yoe = (doe - doe div 1460 + doe div 36524 - doe div 146096) div 365;
          doy = doe - (365 * yoe + yoe div 4 - yoe div 100);
          mp = (5 * doy + 2) div 153;
          d = doy - (153 * mp + 2) div 5 + 1;
          m = (if mp < 10 then mp + 3 else mp - 9);
          y = yoe + era * 400 + (if m \<le> 2 then 1 else 0)
      in (y, m - 1, d))"

definition YearFromTime :: "int \<Rightarrow> int" where
  "YearFromTime t = fst (civilFromDays (Day t))"

definition MonthFromTime :: "int \<Rightarrow> int" where
  "MonthFromTime t = fst (snd (civilFromDays (Day t)))"

definition DateFromTime :: "int \<Rightarrow> int" where
  "DateFromTime t = snd (snd (civilFromDays (Day t)))"

text \<open>The getters return \<^verbatim>\<open>NaN\<close> (here \<open>None\<close>) on the invalid date.\<close>

definition getUTCDay :: "Date \<Rightarrow> int option" where
  "getUTCDay d = (case d of InvalidDate \<Rightarrow> None | DateOf t \<Rightarrow> Some (WeekDay t))"

definition getUTCDate :: "Date \<Rightarrow> int option" where
  "getUTCDate d = (case d of InvalidDate \<Rightarrow> None | DateOf t \<Rightarrow> Some (DateFromTime t))"

definition getUTCMonth :: "Date \<Rightarrow> int option" where
  "getUTCMonth d = (case d of InvalidDate \<Rightarrow> None | DateOf t \<Rightarrow> Some (MonthFromTime t))"

definition getUTCFullYear :: "Date \<Rightarrow> int option" where
  "getUTCFullYear d = (case d of InvalidDate \<Rightarrow> None | DateOf t \<Rightarrow> Some (YearFromTime t))"

text \<open>\<^verbatim>\<open>a === b\<close> on the getters' results: false as soon as one side is \<^verbatim>\<open>NaN\<close>.\<close>

definition strictEqual :: "int option \<Rightarrow> int option \<Rightarrow> bool" where
  "strictEqual a b = (case a of None \<Rightarrow> False | Some x \<Rightarrow> (case b of None \<Rightarrow> False | Some y \<Rightarrow> x = y))"

text \<open>\<^verbatim>\<open>areDatesOfSameDay\<close> of \<^verbatim>\<open>src/utils.ts\<close>, with the getters the source calls.\<close>

definition areDatesOfSameDay :: "Date \<Rightarrow> Date \<Rightarrow> bool" where
  "areDatesOfSameDay date1 date2 =
     (strictEqual (getUTCDay date1) (getUTCDay date2) \<and>
      strictEqual (getUTCMonth date1) (getUTCMonth date2) \<and>
      strictEqual (getUTCFullYear date1) (getUTCFullYear date2))"

text \<open>\<^verbatim>\<open>String.prototype.toLowerCase\<close> on code units below 256: A to Z and the capital
  letters of Latin-1 move up by 32.\<close>

definition toLowerChar :: "char \<Rightarrow> char" where
  "toLowerChar c =
     (let n = (of_char c :: nat)
      in if (65 \<le> n \<and> n \<le> 90) \<or> (192 \<le> n \<and> n \<le> 222 \<and> n \<noteq> 215) then char_of (n + 32) else c)"

definition toLowerCase :: "string \<Rightarrow> string" where
  "toLowerCase v = map toLowerChar v"

subsection \<open>\<^verbatim>\<open>src/types.ts\<close>: quotes, programs and the order request\<close>

text \<open>
  Records carry the fields the code reads or builds; a field of the source that is never
  read lives in the record's extension. Field names that two classes share, or that HOL
  already uses, carry the class as a prefix.
\<close>

datatype QuoteType = EXACT_IN | EXACT_OUT

record Quote =
  quote_id :: string
  quoteType :: QuoteType
  inputToken :: string
  outputToken :: string
  inputAmount :: number
  outputAmount :: number
  exchangeRate :: number
  platformFee :: number
  expiresIn :: int
  timestamp :: int
  token :: string
  targetCurrency :: string
  amountRequested :: number
  pricePerUnitCurrency :: number
  totalPrice :: number

datatype CardType = carbon | silver

record CardProgram =
  program_id :: string
  program_type :: CardType
  program_name :: string
  isRegional :: bool
  isInternational :: bool
  availableCurrencies :: "string list"
  region :: string

record CardProgramWithUserRegion =
  availablePrograms :: "CardProgram list"

record Money =
  money_amount :: number
  currencyCode :: string

text \<open>\<^verbatim>\<open>Money.create(amount, currencyCode)\<close> at a \<^verbatim>\<open>number\<close>, where \<^verbatim>\<open>Number(amount)\<close> is
  \<open>amount\<close>.\<close>

definition Money_create :: "number \<Rightarrow> string \<Rightarrow> Money" where
  "Money_create amount' currencyCode' = \<lparr> money_amount = amount', currencyCode = currencyCode' \<rparr>"

record Deposit =
  chainId :: int
  tokenName :: string
  tokenAmount :: number
  signature :: string
  txHash :: string
  blockHash :: string
  buyerAddress :: string
  userEmail :: string
  paymentId :: string

record Receipt =
  receipt_quote :: "Quote option"
  receipt_deposit :: "Deposit option"

record OrderCardRequest =
  request_amount :: Money
  request_programId :: string
  request_recipient :: Recipient
  request_receipt :: Receipt

record OrderWithExtraInfo =
  orderId :: string
  status :: string
  retryCount :: int

subsection \<open>The outside world of \<^verbatim>\<open>src/services.ts\<close>\<close>

text \<open>What the contracts return: \<^verbatim>\<open>cardConfig()\<close>, \<^verbatim>\<open>cardPurchases(signer)\<close>, a transaction
  response and the receipt its \<^verbatim>\<open>wait()\<close> resolves to. Chain integers are \<^verbatim>\<open>bigint\<close>s.\<close>

record CardConfig =
  minCardAmount :: int
  maxCardAmount :: int
  dailyCardBuyLimit :: int

record CardPurchaseInfo =
  unixInRecord :: int
  totalCardBoughtPerDay :: int

record TxResponse =
  response_hash :: string

record TxReceipt =
  hash :: string
  receipt_blockHash :: string

record Overrides =
  gasLimit :: "int option"

datatype amount = AmountString string | AmountNumber number

text \<open>
  The pure functions of libraries and of \<^verbatim>\<open>./constants\<close> that the code calls, as parameters:
  \<^verbatim>\<open>Number(Number(amount).toFixed(n))\<close>, \<^verbatim>\<open>Number.prototype.toString\<close>, ethers'
  \<^verbatim>\<open>parseUnits\<close> (which throws on a string it cannot read) and \<^verbatim>\<open>formatUnits\<close>, the hex
  SHA-256 digest, the constant \<^verbatim>\<open>DEFAULT_GAS_LIMIT\<close>, and the two address tables
  \<^verbatim>\<open>ZEBEC_CARD_ADDRESS\<close> and \<^verbatim>\<open>USDC_ADDRESS\<close>, which have an entry for each member of
  the enum.
\<close>

record Lib =
  numberToFixed :: "amount \<Rightarrow> nat \<Rightarrow> number"
  numberToString :: "number \<Rightarrow> string"
  parseUnits :: "string \<Rightarrow> int \<Rightarrow> string + int"
  formatUnits :: "int \<Rightarrow> int \<Rightarrow> string"
  sha256Hex :: "string \<Rightarrow> string"
  DEFAULT_GAS_LIMIT :: int
  ZEBEC_CARD_ADDRESS :: "SupportedEvmChain \<Rightarrow> string"
  USDC_ADDRESS :: "SupportedEvmChain \<Rightarrow> string"

text \<open>\<^verbatim>\<open>formatAmount(amount, decimalPlaces = 2)\<close> and \<^verbatim>\<open>hashSHA256\<close> of \<^verbatim>\<open>src/utils.ts\<close>.\<close>

definition formatAmount :: "Lib \<Rightarrow> amount \<Rightarrow> nat \<Rightarrow> number" where
  "formatAmount lib amount' decimalPlaces = numberToFixed lib amount' decimalPlaces"

definition hashSHA256 :: "Lib \<Rightarrow> string \<Rightarrow> string" where
  "hashSHA256 lib input = sha256Hex lib input"

text \<open>
  What each awaited call of one purchase attempt resolves to: \<open>Inr\<close> its value, \<open>Inl\<close> what
  it threw. \<open>dateNow\<close> is the clock read by \<^verbatim>\<open>Date.now()\<close> at the expiry check and
  \<open>newDateNow\<close> the one read by \<^verbatim>\<open>new Date()\<close> at the daily-limit check, both in
  milliseconds. \<open>purchaseCardOutcome n\<close> answers the submission made after \<open>n\<close> earlier
  ones.
\<close>

record Env =
  pingOutcome :: "string + unit"
  fetchProgramsOutcome :: "string \<Rightarrow> string + CardProgramWithUserRegion"
  dateNow :: int
  newDateNow :: int
  decimalsOutcome :: "string + int"
  balanceOfOutcome :: "string + int"
  cardConfigOutcome :: "string + CardConfig"
  cardPurchasesOutcome :: "string + CardPurchaseInfo"
  allowanceOutcome :: "string + int"
  approveOutcome :: "int \<Rightarrow> string + TxResponse"
  approveWaitOutcome :: "string + TxReceipt option"
  buyCardDirectOutcome :: "int \<Rightarrow> string \<Rightarrow> string \<Rightarrow> int \<Rightarrow> string + TxResponse"
  buyWaitOutcome :: "string + TxReceipt option"
  getAddressOutcome :: "string + string"
  purchaseCardOutcome :: "nat \<Rightarrow> OrderCardRequest \<Rightarrow> string + OrderWithExtraInfo"

text \<open>
  The calls that leave the process, in the order they are made: two requests to the order
  service before the transfer, the contract reads, the two transactions with their
  finalization waits, the signer's address, each submission of the order, and each
  \<^verbatim>\<open>setTimeout\<close> wait with its delay in milliseconds.
\<close>

datatype call =
    CallPing
  | CallFetchPrograms string
  | CallDecimals
  | CallBalanceOf
  | CallCardConfig
  | CallCardPurchases
  | CallAllowance
  | CallApprove int
  | CallApproveWait
  | CallBuyCardDirect int string string int
  | CallBuyWait
  | CallGetAddress
  | CallPurchaseCard OrderCardRequest
  | Sleep int

text \<open>A chain call: a contract read, a transaction or a wait for one.\<close>

fun isChainCall :: "call \<Rightarrow> bool" where
  "isChainCall CallPing = False"
| "isChainCall (CallFetchPrograms c) = False"
| "isChainCall (CallPurchaseCard p) = False"
| "isChainCall (Sleep d) = False"
| "isChainCall c = True"

fun isApprove :: "call \<Rightarrow> bool" where
  "isApprove (CallApprove a) = True"
| "isApprove c = False"

fun isBuy :: "call \<Rightarrow> bool" where
  "isBuy (CallBuyCardDirect a t h g) = True"
| "isBuy c = False"

text \<open>A transaction: an approval or a purchase.\<close>

definition isTransaction :: "call \<Rightarrow> bool" where
  "isTransaction c = (isApprove c \<or> isBuy c)"

fun isSubmission :: "call \<Rightarrow> bool" where
  "isSubmission (CallPurchaseCard p) = True"
| "isSubmission c = False"

text \<open>An asynchronous computation: what it returned or threw, and the calls it made.\<close>

type_synonym 'a outcome = "(error + 'a) \<times> call list"

definition ret :: "'a \<Rightarrow> 'a outcome" where
  "ret v = (Inr v, [])"

definition throw :: "error \<Rightarrow> 'a outcome" where
  "throw e = (Inl e, [])"

text \<open>\<^verbatim>\<open>await\<close> of an outside call: the call is made, and what it threw propagates.\<close>

definition await :: "call \<Rightarrow> string + 'a \<Rightarrow> 'a outcome" where
  "await c r = (case r of Inl x \<Rightarrow> (Inl (External x), [c]) | Inr v \<Rightarrow> (Inr v, [c]))"

text \<open>Sequencing: the rest runs only when the first part returned.\<close>

definition andThen :: "'a outcome \<Rightarrow> ('a \<Rightarrow> 'b outcome) \<Rightarrow> 'b outcome" where
  "andThen m f =
     (case m of
        (Inl e, t) \<Rightarrow> (Inl e, t)
      | (Inr v, t) \<Rightarrow> (case f v of (r, t') \<Rightarrow> (r, t @ t')))"

subsection \<open>\<^verbatim>\<open>ZebecCardAPIService\<close>\<close>

text \<open>\<^verbatim>\<open>ping\<close> replaces whatever the request threw by one plain error; the other methods
  rethrow. Logging (\<^verbatim>\<open>console.debug\<close>) is left out everywhere.\<close>

definition ping :: "Env \<Rightarrow> bool outcome" where
  "ping env =
     (case pingOutcome env of
        Inr u \<Rightarrow> (Inr True, [CallPing])
      | Inl x \<Rightarrow> (Inl (Error ''Card service is down. Please try again later.''), [CallPing]))"

definition fetchZebecCardPrograms :: "Env \<Rightarrow> string \<Rightarrow> CardProgramWithUserRegion outcome" where
  "fetchZebecCardPrograms env countryCode' =
     await (CallFetchPrograms countryCode') (fetchProgramsOutcome env countryCode')"

definition purchaseCard :: "Env \<Rightarrow> nat \<Rightarrow> OrderCardRequest \<Rightarrow> OrderWithExtraInfo outcome" where
  "purchaseCard env n data = await (CallPurchaseCard data) (purchaseCardOutcome env n data)"

subsection \<open>\<^verbatim>\<open>ZebecCardEvmService\<close>: the constructor\<close>

record SdkOptions =
  sandbox :: "bool option"

record ZebecCardEvmService =
  zebecCard :: string
  usdcToken :: string
  service_chainId :: SupportedEvmChain
  service_sandbox :: bool

text \<open>
  \<^verbatim>\<open>new ZebecCardEvmService(signer, chainId, apiConfig, sdkOptions?)\<close>. The signer and the
  API configuration are stored without being inspected, and the API service is built from
  constants. A contract object is the address it is connected to; connecting to an address
  of the tables does not throw.
\<close>

definition newZebecCardEvmService ::
  "Lib \<Rightarrow> int \<Rightarrow> SdkOptions option \<Rightarrow> error + ZebecCardEvmService" where
  "newZebecCardEvmService lib chainId' sdkOptions =
     (let sandbox' = (case sdkOptions of
                        None \<Rightarrow> False
                      | Some opts \<Rightarrow> (case sandbox opts of None \<Rightarrow> False | Some b \<Rightarrow> if b then b else False));
          isTesnetChainId = (chainId' \<in> set (map chainValue TESTNET_CHAINIDS))
      in if (sandbox' \<and> \<not> isTesnetChainId) \<or> (\<not> sandbox' \<and> isTesnetChainId) then
           Inl (Error ''Only testnet chains are allowed in sandbox environment'')
         else
           (case parseSupportedChain chainId' of
              Inl e \<Rightarrow> Inl e
            | Inr c \<Rightarrow>
                (let zebecCardAddress = ZEBEC_CARD_ADDRESS lib c;
                     usdcAddress = USDC_ADDRESS lib c
                 in Inr \<lparr> zebecCard = zebecCardAddress, usdcToken = usdcAddress,
                          service_chainId = c, service_sandbox = sandbox' \<rparr>)))"

subsection \<open>\<^verbatim>\<open>ZebecCardEvmService.purchaseCardWithUsdc\<close>\<close>

record Params =
  params_amount :: amount
  params_quote :: Quote
  params_cardProgramId :: string
  params_recipient :: Recipient
  params_overrides :: "Overrides option"

text \<open>The guard of lines 329 to 331: \<^verbatim>\<open>quote.expiresIn - 20000 < Date.now()\<close>.\<close>

definition quoteExpired :: "Quote \<Rightarrow> int \<Rightarrow> bool" where
  "quoteExpired q now = (expiresIn q - 20000 < now)"

text \<open>Lines 299 to 335: the service is up, the program is offered in the recipient's
  region, the email is well formed, and the quote fits the request.\<close>

definition validateRequest :: "Lib \<Rightarrow> Env \<Rightarrow> Params \<Rightarrow> CardProgram outcome" where
  "validateRequest lib env params =
     andThen (ping env) (\<lambda>up.
     andThen (fetchZebecCardPrograms env (countryCode (params_recipient params))) (\<lambda>cardProgramDetails.
       case List.find (\<lambda>p. program_id p = params_cardProgramId params)
              (availablePrograms cardProgramDetails) of
         None \<Rightarrow> throw (Error ''Card program not supported for user's region'')
       | Some cardProgram \<Rightarrow>
           if \<not> isEmailValid (emailAddress (params_recipient params)) then
             throw (InvalidEmailError (emailAddress (params_recipient params)))
           else if toLowerCase (token (params_quote params)) \<noteq> ''usdc'' then
             throw (Error ''Invalid Quote: Quote not for USDC'')
           else if strictNotEqual (amountRequested (params_quote params))
                     (formatAmount lib (params_amount params) 2) then
             throw (Error ''Invalid Quote: Amount request and passed amount does not match'')
           else if quoteExpired (params_quote params) (dateNow env) then
             throw (Error ''Quote expired'')
           else if \<not> list_ex (\<lambda>c. c = targetCurrency (params_quote params))
                       (availableCurrencies cardProgram) then
             throw (Error ''Invalid Quote: Target currency in quote not available in card program'')
           else ret cardProgram))"

text \<open>Lines 363 to 372: the day's total that the daily limit is compared with.\<close>

definition cardPurchaseOfDay :: "int \<Rightarrow> CardPurchaseInfo \<Rightarrow> int \<Rightarrow> int" where
  "cardPurchaseOfDay now cardPurchaseInfo parsedAmount =
     (let lastCardPurchaseDate = newDate (unixInRecord cardPurchaseInfo * 1000);
          today = DateOf now
      in if areDatesOfSameDay today lastCardPurchaseDate
         then totalCardBoughtPerDay cardPurchaseInfo + parsedAmount
         else parsedAmount)"

text \<open>Lines 337 to 379: the amount in base units, then the balance, range and daily-limit
  checks. Returns \<open>parsedAmount\<close>.\<close>

definition checkFunds :: "Lib \<Rightarrow> Env \<Rightarrow> Quote \<Rightarrow> int outcome" where
  "checkFunds lib env q =
     andThen (await CallDecimals (decimalsOutcome env)) (\<lambda>decimals.
     andThen (case parseUnits lib (numberToString lib (totalPrice q)) decimals of
                Inl x \<Rightarrow> throw (External x) | Inr v \<Rightarrow> ret v) (\<lambda>parsedAmount.
     andThen (await CallBalanceOf (balanceOfOutcome env)) (\<lambda>usdcBalance.
       if parsedAmount > usdcBalance then
         throw (NotEnoughBalanceError (formatUnits lib usdcBalance decimals)
                  (numberToString lib (totalPrice q)))
       else
         andThen (await CallCardConfig (cardConfigOutcome env)) (\<lambda>cardConfig.
           if parsedAmount < minCardAmount cardConfig \<or> parsedAmount > maxCardAmount cardConfig then
             throw (CardPurchaseAmountOutOfRangeError
                      (formatUnits lib (minCardAmount cardConfig) decimals)
                      (formatUnits lib (maxCardAmount cardConfig) decimals))
           else
             andThen (await CallCardPurchases (cardPurchasesOutcome env)) (\<lambda>cardPurchaseInfo.
               if cardPurchaseOfDay (newDateNow env) cardPurchaseInfo parsedAmount
                    > dailyCardBuyLimit cardConfig then
                 throw (DailyCardPurchaseLimitExceedError
                          (formatUnits lib (dailyCardBuyLimit cardConfig) decimals)
                          (formatUnits lib (totalCardBoughtPerDay cardPurchaseInfo) decimals))
               else ret parsedAmount)))))"

text \<open>Lines 381 to 395: the allowance is read, and an approval is sent and waited for
  when it is too small. The receipt of the approval is not inspected.\<close>

definition approveIfNeeded :: "Env \<Rightarrow> int \<Rightarrow> unit outcome" where
  "approveIfNeeded env parsedAmount =
     andThen (await CallAllowance (allowanceOutcome env)) (\<lambda>allowance.
       if allowance < parsedAmount then
         andThen (await (CallApprove parsedAmount) (approveOutcome env parsedAmount)) (\<lambda>approveResponse.
         andThen (await CallApproveWait (approveWaitOutcome env)) (\<lambda>approveReceipt.
           ret ()))
       else ret ())"

text \<open>Lines 396 to 416: the purchase transaction and its receipt.
  \<^verbatim>\<open>params.overrides?.gasLimit || DEFAULT_GAS_LIMIT\<close> falls back on an absent and on a zero
  limit.\<close>

definition buyCard :: "Lib \<Rightarrow> Env \<Rightarrow> Params \<Rightarrow> CardProgram \<Rightarrow> int \<Rightarrow> TxReceipt outcome" where
  "buyCard lib env params cardProgram parsedAmount =
     (let cardType = (if program_type cardProgram = carbon then ''reloadable'' else ''non_reloadable'');
          emailHash = hashSHA256 lib (emailAddress (params_recipient params));
          gas = (case params_overrides params of
                   None \<Rightarrow> DEFAULT_GAS_LIMIT lib
                 | Some ov \<Rightarrow> (case gasLimit ov of
                                None \<Rightarrow> DEFAULT_GAS_LIMIT lib
                              | Some g \<Rightarrow> if g = 0 then DEFAULT_GAS_LIMIT lib else g))
      in andThen (await (CallBuyCardDirect parsedAmount cardType emailHash gas)
                    (buyCardDirectOutcome env parsedAmount cardType emailHash gas)) (\<lambda>buyCardResponse.
         andThen (await CallBuyWait (buyWaitOutcome env)) (\<lambda>buyCardReceipt.
           case buyCardReceipt of
             None \<Rightarrow> throw (Error (''Could not get tx receipt for tx: '' @ response_hash buyCardResponse))
           | Some r \<Rightarrow> ret r)))"

text \<open>Lines 420 to 441: the order request built from the quote, the receipt, the buyer's
  address and the recipient.\<close>

definition buildPayload ::
  "ZebecCardEvmService \<Rightarrow> Env \<Rightarrow> Params \<Rightarrow> TxReceipt \<Rightarrow> OrderCardRequest outcome" where
  "buildPayload service env params buyCardReceipt =
     (let usdAmount = Money_create (outputAmount (params_quote params))
                        (targetCurrency (params_quote params))
      in andThen (await CallGetAddress (getAddressOutcome env)) (\<lambda>buyer.
           ret \<lparr> request_amount = usdAmount,
                 request_programId = params_cardProgramId params,
                 request_recipient = params_recipient params,
                 request_receipt =
                   \<lparr> receipt_quote = Some (params_quote params),
                     receipt_deposit = Some
                       \<lparr> chainId = chainValue (service_chainId service),
                         tokenName = ''USDC'',
                         tokenAmount = totalPrice (params_quote params),
                         signature = hash buyCardReceipt,
                         txHash = hash buyCardReceipt,
                         blockHash = receipt_blockHash buyCardReceipt,
                         buyerAddress = buyer,
                         userEmail = emailAddress (params_recipient params),
                         paymentId = [] \<rparr> \<rparr> \<rparr>))"

definition maxRetries :: nat where
  "maxRetries = 5"

text \<open>
  Lines 443 to 484, the loop \<^verbatim>\<open>while (retries < maxRetries)\<close> with its state \<open>retries\<close> and
  \<open>delay\<close>; \<open>calls\<close> counts the submissions already made. Leaving the loop throws
  \<^verbatim>\<open>new Error("Max retries reached")\<close>.
\<close>

function submitWithRetry ::
  "Env \<Rightarrow> OrderCardRequest \<Rightarrow> TxReceipt \<Rightarrow> nat \<Rightarrow> int \<Rightarrow> nat \<Rightarrow> (TxReceipt \<times> OrderWithExtraInfo) outcome" where
  "submitWithRetry env payload buyCardReceipt retries delay calls =
     (if retries < maxRetries then
        (case purchaseCard env calls payload of
           (Inr data, t) \<Rightarrow> (Inr (buyCardReceipt, data), t)
         | (Inl error, t) \<Rightarrow>
             if retries \<ge> maxRetries then (Inl error, t)
             else
               (case submitWithRetry env payload buyCardReceipt (retries + 1) (delay * 2) (calls + 1) of
                  (r, t') \<Rightarrow> (r, t @ Sleep delay # t')))
      else (Inl (Error ''Max retries reached''), []))"
  by pat_completeness auto
termination
  by (relation "measure (\<lambda>(env, payload, buyCardReceipt, retries, delay, calls). maxRetries - retries)")
     (auto simp: maxRetries_def)

declare submitWithRetry.simps [simp del]

text \<open>The whole method, lines 292 to 485.\<close>

definition purchaseCardWithUsdc ::
  "ZebecCardEvmService \<Rightarrow> Lib \<Rightarrow> Env \<Rightarrow> Params \<Rightarrow> (TxReceipt \<times> OrderWithExtraInfo) outcome" where
  "purchaseCardWithUsdc service lib env params =
     andThen (validateRequest lib env params) (\<lambda>cardProgram.
     andThen (checkFunds lib env (params_quote params)) (\<lambda>parsedAmount.
     andThen (approveIfNeeded env parsedAmount) (\<lambda>approved.
     andThen (buyCard lib env params cardProgram parsedAmount) (\<lambda>buyCardReceipt.
     andThen (buildPayload service env params buyCardReceipt) (\<lambda>payload.
       submitWithRetry env payload buyCardReceipt 0 1000 0)))))"

subsection \<open>A concrete purchase\<close>

text \<open>
  The purchase of the repository's test (\<^verbatim>\<open>test/purchaseCard.test.ts\<close>): the recipient
  and the amount \<^verbatim>\<open>"10"\<close> are those of the test, on Sepolia in sandbox mode; the answers
  of the order service and of the chain are made up. Amounts are in base units of a token
  with 6 decimals.
\<close>

definition exampleRecipient :: Recipient where
  "exampleRecipient =
     \<lparr> participantId = ''JohnChamling'', firstName = ''John'', lastName = ''Chamling'',
       emailAddress = ''johnchamling@gmail.com'',
       address1 = ''Shittal street, Bharatpur - 10, Chitwan'', address2 = Some ''N/A'',
       city = ''Bharatpur'', state = ''Bagmati'', postalCode = ''44200'', countryCode = ''NPL'',
       language = ''en-US'', mobilePhone = ''9876543210'' \<rparr>"

definition exampleQuote :: Quote where
  "exampleQuote =
     \<lparr> quote_id = ''q-1'', quoteType = EXACT_OUT, inputToken = ''USDC'', outputToken = ''USD'',
       inputAmount = Num 10.5, outputAmount = Num 10, exchangeRate = Num 1,
       platformFee = Num 0.5, expiresIn = 1704672030000, timestamp = 1704672000000,
       token = ''USDC'', targetCurrency = ''USD'', amountRequested = Num 10,
       pricePerUnitCurrency = Num 1, totalPrice = Num 10.5 \<rparr>"

definition exampleProgram :: CardProgram where
  "exampleProgram =
     \<lparr> program_id = ''prog-1'', program_type = silver, program_name = ''Silver'',
       isRegional = True, isInternational = False, availableCurrencies = [''USD'', ''EUR''],
       region = ''asia'' \<rparr>"

definition exampleParams :: Params where
  "exampleParams =
     \<lparr> params_amount = AmountString ''10'', params_quote = exampleQuote,
       params_cardProgramId = ''prog-1'', params_recipient = exampleRecipient,
       params_overrides = None \<rparr>"

definition exampleLib :: Lib where
  "exampleLib =
     \<lparr> numberToFixed = (\<lambda>a n. case a of
                            AmountString v \<Rightarrow> if v = ''10'' then Num 10 else NaN
                          | AmountNumber x \<Rightarrow> x),
       numberToString = (\<lambda>x. if x = Num 10.5 then ''10.5'' else ''10''),
       parseUnits = (\<lambda>v d. if v = ''10.5'' \<and> d = 6 then Inr 10500000 else Inl ''invalid decimal value''),
       formatUnits = (\<lambda>v d. if v = 5000000000 then ''5000.0''
                            else if v = 4995000000 then ''4995.0''
                            else if v = 1000000000 then ''1000.0''
                            else if v = 20000000 then ''20.0''
                            else ''0.0''),
       sha256Hex = (\<lambda>v. ''sha256:'' @ v),
       DEFAULT_GAS_LIMIT = 300000,
       ZEBEC_CARD_ADDRESS = (\<lambda>c. ''0xcard'' @ (if c = Sepolia then ''-sepolia'' else [])),
       USDC_ADDRESS = (\<lambda>c. ''0xusdc'' @ (if c = Sepolia then ''-sepolia'' else [])) \<rparr>"

definition exampleService :: ZebecCardEvmService where
  "exampleService =
     \<lparr> zebecCard = ''0xcard-sepolia'', usdcToken = ''0xusdc-sepolia'',
       service_chainId = Sepolia, service_sandbox = True \<rparr>"

definition exampleTxReceipt :: TxReceipt where
  "exampleTxReceipt = \<lparr> hash = ''0xbuy'', receipt_blockHash = ''0xblock'' \<rparr>"

definition exampleOrder :: OrderWithExtraInfo where
  "exampleOrder = \<lparr> orderId = ''order-1'', status = ''PENDING'', retryCount = 0 \<rparr>"

text \<open>Everything answers; the allowance is 0, the last purchase of 100 units of the token was
  made on 5 January 2024, and the clock stands at midnight of 8 January 2024 (UTC).\<close>

definition exampleEnv :: Env where
  "exampleEnv =
     \<lparr> pingOutcome = Inr (),
       fetchProgramsOutcome = (\<lambda>c. Inr \<lparr> availablePrograms = [exampleProgram] \<rparr>),
       dateNow = 1704672000000,
       newDateNow = 1704672000000,
       decimalsOutcome = Inr 6,
       balanceOfOutcome = Inr 1000000000,
       cardConfigOutcome = Inr \<lparr> minCardAmount = 1000000, maxCardAmount = 1000000000,
                                 dailyCardBuyLimit = 5000000000 \<rparr>,
       cardPurchasesOutcome = Inr \<lparr> unixInRecord = 1704412800, totalCardBoughtPerDay = 100000000 \<rparr>,
       allowanceOutcome = Inr 0,
       approveOutcome = (\<lambda>a. Inr \<lparr> response_hash = ''0xapprove'' \<rparr>),
       approveWaitOutcome = Inr (Some \<lparr> hash = ''0xapprove'', receipt_blockHash = ''0xblock0'' \<rparr>),
       buyCardDirectOutcome = (\<lambda>a t h g. Inr \<lparr> response_hash = ''0xbuy'' \<rparr>),
       buyWaitOutcome = Inr (Some exampleTxReceipt),
       getAddressOutcome = Inr ''0xbuyer'',
       purchaseCardOutcome = (\<lambda>n p. Inr exampleOrder) \<rparr>"

definition examplePayload :: OrderCardRequest where
  "examplePayload =
     \<lparr> request_amount = \<lparr> money_amount = Num 10, currencyCode = ''USD'' \<rparr>,
       request_programId = ''prog-1'',
       request_recipient = exampleRecipient,
       request_receipt =
         \<lparr> receipt_quote = Some exampleQuote,
           receipt_deposit = Some
             \<lparr> chainId = 11155111, tokenName = ''USDC'', tokenAmount = Num 10.5,
               signature = ''0xbuy'', txHash = ''0xbuy'', blockHash = ''0xblock'',
               buyerAddress = ''0xbuyer'', userEmail = ''johnchamling@gmail.com'',
               paymentId = [] \<rparr> \<rparr> \<rparr>"

text \<open>The calls of the example up to the first submission.\<close>

definition exampleCalls :: "call list" where
  "exampleCalls =
     [CallPing, CallFetchPrograms ''NPL'', CallDecimals, CallBalanceOf, CallCardConfig,
      CallCardPurchases, CallAllowance, CallApprove 10500000, CallApproveWait,
      CallBuyCardDirect 10500000 ''non_reloadable'' ''sha256:johnchamling@gmail.com'' 300000,
      CallBuyWait, CallGetAddress]"

text \<open>The same purchase when the order service refuses the first two submissions.\<close>

definition twoFailuresEnv :: Env where
  "twoFailuresEnv =
     exampleEnv \<lparr> purchaseCardOutcome :=
       (\<lambda>n p. if n < 2 then Inl ''Request failed with status code 500'' else Inr exampleOrder) \<rparr>"

text \<open>The same purchase when the order service refuses every submission; the fifth refusal
  differs from the first four.\<close>

definition fiveFailuresEnv :: Env where
  "fiveFailuresEnv =
     exampleEnv \<lparr> purchaseCardOutcome :=
       (\<lambda>n p. if n < 4 then Inl ''Request failed with status code 500''
              else Inl ''Request failed with status code 503'') \<rparr>"

text \<open>The same purchase with the clock exactly 20 seconds before the quote expires, and one
  millisecond later.\<close>

definition marginEnv :: Env where
  "marginEnv = exampleEnv \<lparr> dateNow := 1704672010000 \<rparr>"

definition expiredEnv :: Env where
  "expiredEnv = exampleEnv \<lparr> dateNow := 1704672010001 \<rparr>"

text \<open>The same purchase with a quote in pounds, which the program does not offer.\<close>

definition poundParams :: Params where
  "poundParams = exampleParams \<lparr> params_quote := exampleQuote \<lparr> targetCurrency := ''GBP'' \<rparr> \<rparr>"

text \<open>The same purchase when the last purchase on record, of 4995 units of the token, was
  made at midnight of 1 January 2024 (UTC): a Monday, as 8 January 2024 is.\<close>

definition sameWeekdayEnv :: Env where
  "sameWeekdayEnv =
     exampleEnv \<lparr> cardPurchasesOutcome :=
       Inr \<lparr> unixInRecord = 1704067200, totalCardBoughtPerDay = 4995000000 \<rparr> \<rparr>"

text \<open>The same purchase against a contract whose smallest card is 20 units of the token.\<close>

definition narrowEnv :: Env where
  "narrowEnv =
     exampleEnv \<lparr> cardConfigOutcome :=
       Inr \<lparr> minCardAmount = 20000000, maxCardAmount = 1000000000,
             dailyCardBuyLimit = 5000000000 \<rparr> \<rparr>"

text \<open>The same purchase when the allowance already equals the amount.\<close>

definition allowedEnv :: Env where
  "allowedEnv = exampleEnv \<lparr> allowanceOutcome := Inr 10500000 \<rparr>"

section \<open>Properties\<close>

subsection \<open>Sequencing and the calls of each part\<close>

lemma andThen_Inr: "m = (Inr v, t) \<Longrightarrow> andThen m f = (fst (f v), t @ snd (f v))"
  by (simp add: andThen_def split: prod.splits)

lemma andThen_calls:
  "c \<in> set (snd (andThen m f)) \<Longrightarrow>
     c \<in> set (snd m) \<or> (\<exists>v. fst m = Inr v \<and> c \<in> set (snd (f v)))"
  by (cases m) (auto simp: andThen_def split: sum.splits prod.splits)

lemma await_calls: "c' \<in> set (snd (await c r)) \<Longrightarrow> c' = c"
  by (simp add: await_def split: sum.splits)

lemma validateRequest_calls:
  "c \<in> set (snd (validateRequest lib env params)) \<Longrightarrow>
     c = CallPing \<or> c = CallFetchPrograms (countryCode (params_recipient params))"
  unfolding validateRequest_def
  by (auto dest!: andThen_calls await_calls
        simp: ping_def fetchZebecCardPrograms_def throw_def ret_def
        split: sum.splits option.splits if_splits)

lemma checkFunds_calls:
  "c \<in> set (snd (checkFunds lib env q)) \<Longrightarrow>
     c \<in> {CallDecimals, CallBalanceOf, CallCardConfig, CallCardPurchases}"
  unfolding checkFunds_def
  by (auto dest!: andThen_calls await_calls simp: throw_def ret_def
        split: sum.splits option.splits if_splits)

lemma approveIfNeeded_calls:
  "c \<in> set (snd (approveIfNeeded env a)) \<Longrightarrow>
     c \<in> {CallAllowance, CallApprove a, CallApproveWait}"
  unfolding approveIfNeeded_def
  by (auto dest!: andThen_calls await_calls simp: throw_def ret_def
        split: sum.splits option.splits if_splits)

lemma buyCard_calls:
  "c \<in> set (snd (buyCard lib env params cp a)) \<Longrightarrow> isBuy c \<or> c = CallBuyWait"
  unfolding buyCard_def Let_def
  by (auto dest!: andThen_calls await_calls simp: throw_def ret_def
        split: sum.splits option.splits if_splits)

lemma buildPayload_calls:
  "c \<in> set (snd (buildPayload service env params r)) \<Longrightarrow> c = CallGetAddress"
  unfolding buildPayload_def Let_def
  by (auto dest!: andThen_calls await_calls simp: throw_def ret_def
        split: sum.splits option.splits if_splits)

lemma buildPayload_recipient:
  "fst (buildPayload service env params r) = Inr payload \<Longrightarrow>
     request_recipient payload = params_recipient params"
  unfolding buildPayload_def Let_def
  by (auto simp: andThen_def await_def throw_def ret_def split: sum.splits)

lemma submitWithRetry_calls:
  "c \<in> set (snd (submitWithRetry env payload r retries delay calls)) \<Longrightarrow>
     c = CallPurchaseCard payload \<or> (\<exists>d. c = Sleep d)"
proof (induction env payload r retries delay calls rule: submitWithRetry.induct)
  case (1 env payload r retries delay calls)
  show ?case
  proof (cases "retries < maxRetries")
    case False
    with "1.prems" show ?thesis by (simp add: submitWithRetry.simps)
  next
    case True
    note lt = this
    show ?thesis
    proof (cases "purchaseCardOutcome env calls payload")
      case (Inr data)
      with lt "1.prems" show ?thesis
        by (simp add: submitWithRetry.simps [of env payload r retries] purchaseCard_def await_def)
    next
      case (Inl x)
      have pc: "purchaseCard env calls payload = (Inl (External x), [CallPurchaseCard payload])"
        by (simp add: purchaseCard_def await_def Inl)
      from lt have nge: "\<not> maxRetries \<le> retries" by simp
      from "1.prems" lt Inl pc nge
      have "c = CallPurchaseCard payload \<or> c = Sleep delay \<or>
            c \<in> set (snd (submitWithRetry env payload r (retries + 1) (delay * 2) (calls + 1)))"
        by (auto simp: submitWithRetry.simps [of env payload r retries] split: prod.splits)
      with "1.IH" [OF lt pc [symmetric] refl nge] show ?thesis by blast
    qed
  qed
qed

text \<open>Every order the method submits carries the recipient it was given.\<close>

lemma submitted_recipient:
  assumes "CallPurchaseCard payload \<in> set (snd (purchaseCardWithUsdc service lib env params))"
  shows "request_recipient payload = params_recipient params"
proof -
  from assms show ?thesis
    unfolding purchaseCardWithUsdc_def
    by (auto dest!: andThen_calls
          dest: validateRequest_calls checkFunds_calls approveIfNeeded_calls buyCard_calls
            buildPayload_calls submitWithRetry_calls buildPayload_recipient)
qed

subsection \<open>The concrete purchase, part by part\<close>

lemma example_email_valid: "isEmailValid ''johnchamling@gmail.com''"
  by code_simp

lemma example_id_alphanumeric: "isAlphaNumeric ''JohnChamling''"
  by code_simp

lemma example_token_lower: "toLowerCase ''USDC'' = ''usdc''"
  by code_simp

lemma example_country: "''NPL'' \<in> set ALL_COUNTRIES_AND_CODE"
  by (simp add: ALL_COUNTRIES_AND_CODE_def)

lemma example_create:
  "create ''JohnChamling'' ''John'' ''Chamling'' ''johnchamling@gmail.com'' ''9876543210''
     ''en-US'' ''Bharatpur'' ''Bagmati'' ''44200'' ''NPL''
     ''Shittal street, Bharatpur - 10, Chitwan'' None = Inr exampleRecipient"
  using example_country
  by (simp add: create_def hasLen_def hasMinLen_def hasMaxLen_def example_email_valid
        example_id_alphanumeric find_None_iff exampleRecipient_def)

subsection \<open>The constructor\<close>

text \<open>
  C9. \<^verbatim>\<open>new ZebecCardEvmService\<close> succeeds exactly for a supported chain whose testnet
  membership matches the sandbox flag: with \<open>sandbox\<close> true for Sepolia (11155111),
  BscTestnet (97) and PolygonAmoy (80002); with \<open>sandbox\<close> false or unset for Mainnet (1),
  Base (8453), Bsc (56) and Polygon (137); it throws on every other combination. On
  success the service holds the chain of that number.
\<close>

theorem constructor_succeeds_iff:
  "((\<exists>s. newZebecCardEvmService lib n (Some \<lparr>sandbox = Some True\<rparr>) = Inr s)
      \<longleftrightarrow> n \<in> {11155111, 97, 80002}) \<and>
   (opts \<in> {None, Some \<lparr>sandbox = None\<rparr>, Some \<lparr>sandbox = Some False\<rparr>} \<longrightarrow>
      ((\<exists>s. newZebecCardEvmService lib n opts = Inr s) \<longleftrightarrow> n \<in> {1, 8453, 56, 137})) \<and>
   (\<forall>s. newZebecCardEvmService lib n opts = Inr s \<longrightarrow> chainValue (service_chainId s) = n) \<and>
   ((\<forall>s. newZebecCardEvmService lib n opts \<noteq> Inr s) \<longrightarrow>
      (\<exists>e. newZebecCardEvmService lib n opts = Inl e))"
proof -
  have sandboxed: "(\<exists>s. newZebecCardEvmService lib n (Some \<lparr>sandbox = Some True\<rparr>) = Inr s)
      \<longleftrightarrow> n \<in> {11155111, 97, 80002}"
    by (auto simp: newZebecCardEvmService_def parseSupportedChain_def TESTNET_CHAINIDS_def
          split: if_splits)
  have production: "(\<exists>s. newZebecCardEvmService lib n opts = Inr s) \<longleftrightarrow> n \<in> {1, 8453, 56, 137}"
    if "opts \<in> {None, Some \<lparr>sandbox = None\<rparr>, Some \<lparr>sandbox = Some False\<rparr>}"
    using that
    by (auto simp: newZebecCardEvmService_def parseSupportedChain_def TESTNET_CHAINIDS_def
          split: if_splits)
  have chain: "chainValue (service_chainId s) = n" if "newZebecCardEvmService lib n opts = Inr s" for s
    using that
    by (auto simp: newZebecCardEvmService_def parseSupportedChain_def Let_def
          split: if_splits sum.splits)
  have throws: "\<exists>e. newZebecCardEvmService lib n opts = Inl e"
    if "\<forall>s. newZebecCardEvmService lib n opts \<noteq> Inr s"
    using that by (cases "newZebecCardEvmService lib n opts") auto
  from sandboxed production chain throws show ?thesis by blast
qed

theorem constructor_succeeds_iff_witness:
  "(\<exists>s. newZebecCardEvmService exampleLib 11155111 (Some \<lparr>sandbox = Some True\<rparr>) = Inr s) \<and>
   (\<nexists>s. newZebecCardEvmService exampleLib 1 (Some \<lparr>sandbox = Some True\<rparr>) = Inr s) \<and>
   (\<exists>s. newZebecCardEvmService exampleLib 137 None = Inr s) \<and>
   (\<nexists>s. newZebecCardEvmService exampleLib 80002 (Some \<lparr>sandbox = Some False\<rparr>) = Inr s) \<and>
   (\<nexists>s. newZebecCardEvmService exampleLib 5 (Some \<lparr>sandbox = None\<rparr>) = Inr s)"
  using constructor_succeeds_iff [of exampleLib 11155111 None]
    constructor_succeeds_iff [of exampleLib 1 None]
    constructor_succeeds_iff [of exampleLib 137 None]
    constructor_succeeds_iff [of exampleLib 80002 "Some \<lparr>sandbox = Some False\<rparr>"]
    constructor_succeeds_iff [of exampleLib 5 "Some \<lparr>sandbox = None\<rparr>"]
  by simp

text \<open>The service of the concrete purchase is the one the constructor builds for Sepolia in
  sandbox mode.\<close>

lemma example_service_constructed:
  "newZebecCardEvmService exampleLib 11155111 (Some \<lparr>sandbox = Some True\<rparr>) = Inr exampleService"
  by (simp add: newZebecCardEvmService_def parseSupportedChain_def TESTNET_CHAINIDS_def
        exampleLib_def exampleService_def)

subsection \<open>\<^verbatim>\<open>Recipient.create\<close>\<close>

text \<open>Membership in the country table, as the source's \<^verbatim>\<open>find\<close> decides it.\<close>

lemma country_find_None:
  "(List.find (\<lambda>code. code = cc) ALL_COUNTRIES_AND_CODE = None) \<longleftrightarrow> cc \<notin> set ALL_COUNTRIES_AND_CODE"
  by (auto simp: find_None_iff)

lemma hasLen_bounds: "0 < m \<Longrightarrow> hasLen v n (Some m) \<longleftrightarrow> n \<le> length v \<and> length v \<le> m"
  by (simp add: hasLen_def hasMinLen_def hasMaxLen_def)

text \<open>A chain of guards that throw: it returns only when no guard fires, and it throws
  the error of the first guard that does.\<close>

lemma if_throw_Inr: "((if c then Inl e else x) = Inr r) \<longleftrightarrow> (\<not> c \<and> x = Inr r)"
  by simp

lemma if_throw_Inl:
  "((if c then Inl e else x) = Inl e') \<longleftrightarrow> ((c \<and> e' = e) \<or> (\<not> c \<and> x = Inl e'))"
  by auto

lemma address2_guard:
  "(case a2 of None \<Rightarrow> False | Some a \<Rightarrow> a \<noteq> [] \<and> \<not> hasLen a 1 (Some 50))
     \<longleftrightarrow> (\<exists>a. a2 = Some a \<and> \<not> length a \<le> 50)"
  by (cases a2) (auto simp: hasLen_def hasMinLen_def hasMaxLen_def Suc_le_eq)

lemma create_Inr_unfold:
  "create pid fnm lnm em mp lang ct st pc cc a1 a2 = Inr r \<longleftrightarrow>
     ((1 \<le> length pid \<and> length pid \<le> 20) \<and> isAlphaNumeric pid \<and>
      (1 \<le> length fnm \<and> length fnm \<le> 50) \<and>
      (1 \<le> length lnm \<and> length lnm \<le> 50) \<and>
      (1 \<le> length em \<and> length em \<le> 80) \<and> isEmailValid em \<and>
      lang \<noteq> [] \<and>
      (1 \<le> length mp \<and> length mp \<le> 20) \<and>
      (1 \<le> length ct \<and> length ct \<le> 35) \<and>
      (1 \<le> length st \<and> length st \<le> 50) \<and>
      cc \<in> set ALL_COUNTRIES_AND_CODE \<and>
      (1 \<le> length pc \<and> length pc \<le> 20) \<and>
      (1 \<le> length a1 \<and> length a1 \<le> 50) \<and>
      \<not> (\<exists>a. a2 = Some a \<and> \<not> length a \<le> 50) \<and>
      r = \<lparr> participantId = pid, firstName = fnm, lastName = lnm, emailAddress = em,
            address1 = a1, address2 = Some (case a2 of None \<Rightarrow> ''N/A'' | Some a \<Rightarrow> a),
            city = ct, state = st, postalCode = pc, countryCode = cc, language = lang,
            mobilePhone = mp \<rparr>)"
proof -
  have "create pid fnm lnm em mp lang ct st pc cc a1 a2 = Inr r \<longleftrightarrow>
     (hasLen pid 1 (Some 20) \<and> isAlphaNumeric pid \<and> hasLen fnm 1 (Some 50) \<and>
      hasLen lnm 1 (Some 50) \<and> hasLen em 1 (Some 80) \<and> isEmailValid em \<and> lang \<noteq> [] \<and>
      hasLen mp 1 (Some 20) \<and> hasLen ct 1 (Some 35) \<and> hasLen st 1 (Some 50) \<and>
      List.find (\<lambda>code. code = cc) ALL_COUNTRIES_AND_CODE \<noteq> None \<and>
      hasLen pc 1 (Some 20) \<and> hasLen a1 1 (Some 50) \<and>
      \<not> (case a2 of None \<Rightarrow> False | Some a \<Rightarrow> a \<noteq> [] \<and> \<not> hasLen a 1 (Some 50)) \<and>
      r = \<lparr> participantId = pid, firstName = fnm, lastName = lnm, emailAddress = em,
            address1 = a1, address2 = Some (case a2 of None \<Rightarrow> ''N/A'' | Some a \<Rightarrow> a),
            city = ct, state = st, postalCode = pc, countryCode = cc, language = lang,
            mobilePhone = mp \<rparr>)"
    unfolding create_def if_throw_Inr by auto
  then show ?thesis
    unfolding address2_guard
    by (simp only: hasLen_bounds country_find_None zero_less_numeral not_not)
qed

lemma create_Inl_unfold:
  "create pid fnm lnm em mp lang ct st pc cc a1 a2 = Inl e \<Longrightarrow>
      (e = ValidationError ''Participants must be of 1 to 20 characters.''
         \<and> \<not> (1 \<le> length pid \<and> length pid \<le> 20)) \<or>
      (e = ValidationError ''Participants must only contains alpha numeric characters''
         \<and> \<not> isAlphaNumeric pid) \<or>
      (e = ValidationError ''Firstname must be within 1 to 50 characters.''
         \<and> \<not> (1 \<le> length fnm \<and> length fnm \<le> 50)) \<or>
      (e = ValidationError ''Lastname must be within 1 to 50 characters.''
         \<and> \<not> (1 \<le> length lnm \<and> length lnm \<le> 50)) \<or>
      (e = ValidationError ''Email must be within 1 to 80 characters.''
         \<and> \<not> (1 \<le> length em \<and> length em \<le> 80)) \<or>
      (e = ValidationError ''Email address must be a valid email.''
         \<and> \<not> isEmailValid em) \<or>
      (e = ValidationError ''Language code is required''
         \<and> lang = []) \<or>
      (e = ValidationError ''Mobile phone number must be within 1 to 20 characters.''
         \<and> \<not> (1 \<le> length mp \<and> length mp \<le> 20)) \<or>
      (e = ValidationError ''City must be within 1 to 50 characters.''
         \<and> \<not> (1 \<le> length ct \<and> length ct \<le> 35)) \<or>
      (e = ValidationError ''State must be within 1 to 50 characters.''
         \<and> \<not> (1 \<le> length st \<and> length st \<le> 50)) \<or>
      (e = ValidationError ''CountryCode must be a valid supported ISO 3166-1 alpha-3 code''
         \<and> cc \<notin> set ALL_COUNTRIES_AND_CODE) \<or>
      (e = ValidationError ''Postal code must be within 1 to 20 characters.''
         \<and> \<not> (1 \<le> length pc \<and> length pc \<le> 20)) \<or>
      (e = ValidationError ''Address line 1 must be within 1 to 50 characters.''
         \<and> \<not> (1 \<le> length a1 \<and> length a1 \<le> 50)) \<or>
      (e = ValidationError ''Address line 2 must be within 1 to 50 characters.''
         \<and> (\<exists>a. a2 = Some a \<and> \<not> length a \<le> 50))"
  unfolding create_def if_throw_Inl address2_guard
  apply (simp only: hasLen_bounds country_find_None zero_less_numeral not_not)
  apply (elim disjE conjE)
  apply simp_all
  done

text \<open>
  C8, as the code has it. For every input whose \<open>address2\<close> is omitted or not empty,
  \<^verbatim>\<open>Recipient.create\<close> returns a recipient exactly when every field constraint holds:
  participant id 1 to 20 characters and alphanumeric, first and last name 1 to 50, email
  1 to 80 and well formed, mobile phone 1 to 20, city 1 to 35, state 1 to 50, postal code
  1 to 20, address line 1 1 to 50, address line 2 (when given) 1 to 50, the country code in
  the supported set, a language that is not empty. The recipient returned has every field
  as it was passed (with \<open>N/A\<close> for an omitted \<open>address2\<close>); otherwise a
  \<open>ValidationError\<close> is thrown, and each of its messages names a field whose constraint
  is violated.
\<close>

theorem create_succeeds_iff:
  assumes "a2 \<noteq> Some []"
  shows
  "((\<exists>r. create pid fnm lnm em mp lang ct st pc cc a1 a2 = Inr r) \<longleftrightarrow>
     (1 \<le> length pid \<and> length pid \<le> 20 \<and> isAlphaNumeric pid \<and>
      1 \<le> length fnm \<and> length fnm \<le> 50 \<and>
      1 \<le> length lnm \<and> length lnm \<le> 50 \<and>
      1 \<le> length em \<and> length em \<le> 80 \<and> isEmailValid em \<and>
      1 \<le> length mp \<and> length mp \<le> 20 \<and>
      1 \<le> length ct \<and> length ct \<le> 35 \<and>
      1 \<le> length st \<and> length st \<le> 50 \<and>
      1 \<le> length pc \<and> length pc \<le> 20 \<and>
      1 \<le> length a1 \<and> length a1 \<le> 50 \<and>
      (case a2 of None \<Rightarrow> True | Some a \<Rightarrow> 1 \<le> length a \<and> length a \<le> 50) \<and>
      cc \<in> set ALL_COUNTRIES_AND_CODE \<and>
      lang \<noteq> [])) \<and>
   (\<forall>r. create pid fnm lnm em mp lang ct st pc cc a1 a2 = Inr r \<longrightarrow>
      r = \<lparr> participantId = pid, firstName = fnm, lastName = lnm, emailAddress = em,
            address1 = a1, address2 = Some (case a2 of None \<Rightarrow> ''N/A'' | Some a \<Rightarrow> a),
            city = ct, state = st, postalCode = pc, countryCode = cc, language = lang,
            mobilePhone = mp \<rparr>) \<and>
   (\<forall>e. create pid fnm lnm em mp lang ct st pc cc a1 a2 = Inl e \<longrightarrow>
      (e = ValidationError ''Participants must be of 1 to 20 characters.''
         \<and> \<not> (1 \<le> length pid \<and> length pid \<le> 20)) \<or>
      (e = ValidationError ''Participants must only contains alpha numeric characters''
         \<and> \<not> isAlphaNumeric pid) \<or>
      (e = ValidationError ''Firstname must be within 1 to 50 characters.''
         \<and> \<not> (1 \<le> length fnm \<and> length fnm \<le> 50)) \<or>
      (e = ValidationError ''Lastname must be within 1 to 50 characters.''
         \<and> \<not> (1 \<le> length lnm \<and> length lnm \<le> 50)) \<or>
      (e = ValidationError ''Email must be within 1 to 80 characters.''
         \<and> \<not> (1 \<le> length em \<and> length em \<le> 80)) \<or>
      (e = ValidationError ''Email address must be a valid email.''
         \<and> \<not> isEmailValid em) \<or>
      (e = ValidationError ''Language code is required''
         \<and> lang = []) \<or>
      (e = ValidationError ''Mobile phone number must be within 1 to 20 characters.''
         \<and> \<not> (1 \<le> length mp \<and> length mp \<le> 20)) \<or>
      (e = ValidationError ''City must be within 1 to 50 characters.''
         \<and> \<not> (1 \<le> length ct \<and> length ct \<le> 35)) \<or>
      (e = ValidationError ''State must be within 1 to 50 characters.''
         \<and> \<not> (1 \<le> length st \<and> length st \<le> 50)) \<or>
      (e = ValidationError ''CountryCode must be a valid supported ISO 3166-1 alpha-3 code''
         \<and> cc \<notin> set ALL_COUNTRIES_AND_CODE) \<or>
      (e = ValidationError ''Postal code must be within 1 to 20 characters.''
         \<and> \<not> (1 \<le> length pc \<and> length pc \<le> 20)) \<or>
      (e = ValidationError ''Address line 1 must be within 1 to 50 characters.''
         \<and> \<not> (1 \<le> length a1 \<and> length a1 \<le> 50)) \<or>
      (e = ValidationError ''Address line 2 must be within 1 to 50 characters.''
         \<and> (\<exists>a. a2 = Some a \<and> \<not> length a \<le> 50)))"
proof -
  have nonempty: "(case a2 of None \<Rightarrow> True | Some a \<Rightarrow> 1 \<le> length a \<and> length a \<le> 50)
      \<longleftrightarrow> \<not> (\<exists>a. a2 = Some a \<and> \<not> length a \<le> 50)"
    using assms by (cases a2) (auto simp: Suc_le_eq)
  have succeeds: "(\<exists>r. create pid fnm lnm em mp lang ct st pc cc a1 a2 = Inr r) \<longleftrightarrow>
     (1 \<le> length pid \<and> length pid \<le> 20 \<and> isAlphaNumeric pid \<and>
      1 \<le> length fnm \<and> length fnm \<le> 50 \<and>
      1 \<le> length lnm \<and> length lnm \<le> 50 \<and>
      1 \<le> length em \<and> length em \<le> 80 \<and> isEmailValid em \<and>
      1 \<le> length mp \<and> length mp \<le> 20 \<and>
      1 \<le> length ct \<and> length ct \<le> 35 \<and>
      1 \<le> length st \<and> length st \<le> 50 \<and>
      1 \<le> length pc \<and> length pc \<le> 20 \<and>
      1 \<le> length a1 \<and> length a1 \<le> 50 \<and>
      (case a2 of None \<Rightarrow> True | Some a \<Rightarrow> 1 \<le> length a \<and> length a \<le> 50) \<and>
      cc \<in> set ALL_COUNTRIES_AND_CODE \<and>
      lang \<noteq> [])"
    unfolding create_Inr_unfold nonempty by blast
  have whole: "\<forall>r. create pid fnm lnm em mp lang ct st pc cc a1 a2 = Inr r \<longrightarrow>
      r = \<lparr> participantId = pid, firstName = fnm, lastName = lnm, emailAddress = em,
            address1 = a1, address2 = Some (case a2 of None \<Rightarrow> ''N/A'' | Some a \<Rightarrow> a),
            city = ct, state = st, postalCode = pc, countryCode = cc, language = lang,
            mobilePhone = mp \<rparr>"
    unfolding create_Inr_unfold by blast
  from succeeds whole create_Inl_unfold [of pid fnm lnm em mp lang ct st pc cc a1 a2]
  show ?thesis by blast
qed

theorem create_succeeds_iff_witness:
  "(None :: string option) \<noteq> Some [] \<and>
   create ''JohnChamling'' ''John'' ''Chamling'' ''johnchamling@gmail.com'' ''9876543210''
     ''en-US'' ''Bharatpur'' ''Bagmati'' ''44200'' ''NPL''
     ''Shittal street, Bharatpur - 10, Chitwan'' None = Inr exampleRecipient \<and>
   create ''JohnChamling'' ''John'' ''Chamling'' ''johnchamling@gmail.com'' ''9876543210''
     ''en-US'' ''Bharatpur'' ''Bagmati'' ''44200'' ''XYZ''
     ''Shittal street, Bharatpur - 10, Chitwan'' None =
       Inl (ValidationError ''CountryCode must be a valid supported ISO 3166-1 alpha-3 code'')"
proof -
  have omitted: "(None :: string option) \<noteq> Some []" by simp
  have xyz: "''XYZ'' \<notin> set ALL_COUNTRIES_AND_CODE"
    by (simp add: ALL_COUNTRIES_AND_CODE_def)
  have "\<exists>r. create ''JohnChamling'' ''John'' ''Chamling'' ''johnchamling@gmail.com''
      ''9876543210'' ''en-US'' ''Bharatpur'' ''Bagmati'' ''44200'' ''NPL''
      ''Shittal street, Bharatpur - 10, Chitwan'' None = Inr r"
    using create_succeeds_iff [OF omitted, of "''JohnChamling''" "''John''" "''Chamling''"
        "''johnchamling@gmail.com''" "''9876543210''" "''en-US''" "''Bharatpur''" "''Bagmati''"
        "''44200''" "''NPL''" "''Shittal street, Bharatpur - 10, Chitwan''"]
      example_email_valid example_id_alphanumeric example_country
    by simp
  then have accepted: "create ''JohnChamling'' ''John'' ''Chamling'' ''johnchamling@gmail.com''
      ''9876543210'' ''en-US'' ''Bharatpur'' ''Bagmati'' ''44200'' ''NPL''
      ''Shittal street, Bharatpur - 10, Chitwan'' None = Inr exampleRecipient"
    using example_create by simp
  have "\<not> (\<exists>r. create ''JohnChamling'' ''John'' ''Chamling'' ''johnchamling@gmail.com''
      ''9876543210'' ''en-US'' ''Bharatpur'' ''Bagmati'' ''44200'' ''XYZ''
      ''Shittal street, Bharatpur - 10, Chitwan'' None = Inr r)"
    using create_succeeds_iff [OF omitted, of "''JohnChamling''" "''John''" "''Chamling''"
        "''johnchamling@gmail.com''" "''9876543210''" "''en-US''" "''Bharatpur''" "''Bagmati''"
        "''44200''" "''XYZ''" "''Shittal street, Bharatpur - 10, Chitwan''"] xyz
    by simp
  then have rejected: "create ''JohnChamling'' ''John'' ''Chamling'' ''johnchamling@gmail.com''
      ''9876543210'' ''en-US'' ''Bharatpur'' ''Bagmati'' ''44200'' ''XYZ''
      ''Shittal street, Bharatpur - 10, Chitwan'' None =
        Inl (ValidationError ''CountryCode must be a valid supported ISO 3166-1 alpha-3 code'')"
    using xyz
    by (simp add: create_def hasLen_def hasMinLen_def hasMaxLen_def example_email_valid
          example_id_alphanumeric find_None_iff)
  from omitted accepted rejected show ?thesis by blast
qed

text \<open>
  C8 as the specification words it fails: it bounds the state by 20 characters, and the
  code accepts a state of 23.
\<close>

theorem create_state_counterexample:
  "create ''JohnChamling'' ''John'' ''Chamling'' ''johnchamling@gmail.com'' ''9876543210''
     ''en-US'' ''Bharatpur'' ''Bagmati Province, Nepal'' ''44200'' ''NPL''
     ''Shittal street, Bharatpur - 10, Chitwan'' None =
       Inr (exampleRecipient \<lparr> state := ''Bagmati Province, Nepal'' \<rparr>) \<and>
   \<not> length ''Bagmati Province, Nepal'' \<le> 20"
  using example_country
  by (simp add: create_def hasLen_def hasMinLen_def hasMaxLen_def example_email_valid
        example_id_alphanumeric find_None_iff exampleRecipient_def)

subsection \<open>The concrete purchase runs to the end\<close>

lemmas example_defs = exampleRecipient_def exampleQuote_def exampleProgram_def exampleParams_def
  exampleLib_def exampleService_def exampleTxReceipt_def exampleOrder_def exampleEnv_def
  examplePayload_def

lemmas step_defs = andThen_def await_def ret_def throw_def

lemma example_validateRequest:
  "validateRequest exampleLib exampleEnv exampleParams =
     (Inr exampleProgram, [CallPing, CallFetchPrograms ''NPL''])"
  by (simp add: validateRequest_def ping_def fetchZebecCardPrograms_def step_defs example_defs
        example_email_valid example_token_lower strictNotEqual_def formatAmount_def
        quoteExpired_def)

lemma example_other_day:
  "\<not> areDatesOfSameDay (DateOf 1704672000000) (newDate (1704412800 * 1000))"
  by code_simp

lemma example_checkFunds:
  "checkFunds exampleLib exampleEnv exampleQuote =
     (Inr 10500000, [CallDecimals, CallBalanceOf, CallCardConfig, CallCardPurchases])"
  using example_other_day
  by (simp add: checkFunds_def cardPurchaseOfDay_def step_defs example_defs)

lemma example_approveIfNeeded:
  "approveIfNeeded exampleEnv 10500000 =
     (Inr (), [CallAllowance, CallApprove 10500000, CallApproveWait])"
  by (simp add: approveIfNeeded_def step_defs exampleEnv_def)

lemma example_buyCard:
  "buyCard exampleLib exampleEnv exampleParams exampleProgram 10500000 =
     (Inr exampleTxReceipt,
      [CallBuyCardDirect 10500000 ''non_reloadable'' ''sha256:johnchamling@gmail.com'' 300000,
       CallBuyWait])"
  by (simp add: buyCard_def hashSHA256_def step_defs example_defs)

lemma example_buildPayload:
  "buildPayload exampleService exampleEnv exampleParams exampleTxReceipt =
     (Inr examplePayload, [CallGetAddress])"
  by (simp add: buildPayload_def Money_create_def step_defs example_defs)

lemma example_submit:
  "submitWithRetry exampleEnv examplePayload exampleTxReceipt 0 1000 0 =
     (Inr (exampleTxReceipt, exampleOrder), [CallPurchaseCard examplePayload])"
  by (simp add: submitWithRetry.simps maxRetries_def purchaseCard_def await_def exampleEnv_def)

lemma example_quote: "params_quote exampleParams = exampleQuote"
  by (simp add: exampleParams_def)

lemma example_purchase:
  "purchaseCardWithUsdc exampleService exampleLib exampleEnv exampleParams =
     (Inr (exampleTxReceipt, exampleOrder), exampleCalls @ [CallPurchaseCard examplePayload])"
  by (simp add: purchaseCardWithUsdc_def andThen_def example_validateRequest example_quote
        example_checkFunds example_approveIfNeeded example_buyCard example_buildPayload
        example_submit exampleCalls_def)

subsection \<open>The omitted second address line\<close>

text \<open>
  C10. When \<open>address2\<close> is omitted, the recipient that \<^verbatim>\<open>Recipient.create\<close> returns has
  \<open>address2\<close> set to the string \<open>N/A\<close> (it is not absent), and every order request that
  \<^verbatim>\<open>purchaseCardWithUsdc\<close> submits for that recipient carries this value.
\<close>

theorem omitted_address2_is_NA:
  assumes "create pid fnm lnm em mp lang ct st pc cc a1 None = Inr r"
  shows "address2 r = Some ''N/A'' \<and>
         (\<forall>service lib env params payload.
            params_recipient params = r \<and>
            CallPurchaseCard payload \<in> set (snd (purchaseCardWithUsdc service lib env params))
            \<longrightarrow> address2 (request_recipient payload) = Some ''N/A'')"
proof -
  from assms have na: "address2 r = Some ''N/A''"
    unfolding create_Inr_unfold by simp
  moreover have "address2 (request_recipient payload) = Some ''N/A''"
    if "params_recipient params = r"
      and "CallPurchaseCard payload \<in> set (snd (purchaseCardWithUsdc service lib env params))"
    for service lib env params payload
    using that na submitted_recipient [of payload service lib env params] by simp
  ultimately show ?thesis by blast
qed

theorem omitted_address2_is_NA_witness:
  "create ''JohnChamling'' ''John'' ''Chamling'' ''johnchamling@gmail.com'' ''9876543210''
     ''en-US'' ''Bharatpur'' ''Bagmati'' ''44200'' ''NPL''
     ''Shittal street, Bharatpur - 10, Chitwan'' None = Inr exampleRecipient \<and>
   address2 exampleRecipient = Some ''N/A'' \<and>
   params_recipient exampleParams = exampleRecipient \<and>
   CallPurchaseCard examplePayload
     \<in> set (snd (purchaseCardWithUsdc exampleService exampleLib exampleEnv exampleParams)) \<and>
   address2 (request_recipient examplePayload) = Some ''N/A''"
proof -
  note na = omitted_address2_is_NA [OF example_create]
  have given: "params_recipient exampleParams = exampleRecipient"
    by (simp add: exampleParams_def)
  have sent: "CallPurchaseCard examplePayload
      \<in> set (snd (purchaseCardWithUsdc exampleService exampleLib exampleEnv exampleParams))"
    by (simp add: example_purchase)
  from na given sent have "address2 (request_recipient examplePayload) = Some ''N/A''"
    by blast
  with na given sent example_create show ?thesis by blast
qed

subsection \<open>The reporting loop\<close>

lemma submit_returns:
  assumes "retries < maxRetries" and "purchaseCardOutcome env calls payload = Inr data"
  shows "submitWithRetry env payload r retries delay calls =
           (Inr (r, data), [CallPurchaseCard payload])"
  using assms
  by (simp add: submitWithRetry.simps [of env payload r retries] purchaseCard_def await_def)

lemma submit_retries:
  assumes "retries < maxRetries" and "purchaseCardOutcome env calls payload = Inl x"
  shows "submitWithRetry env payload r retries delay calls =
           (fst (submitWithRetry env payload r (Suc retries) (delay * 2) (Suc calls)),
            CallPurchaseCard payload # Sleep delay #
              snd (submitWithRetry env payload r (Suc retries) (delay * 2) (Suc calls)))"
  using assms
  by (simp add: submitWithRetry.simps [of env payload r retries] purchaseCard_def await_def
        split: prod.splits)

lemma submit_gives_up:
  assumes "\<not> retries < maxRetries"
  shows "submitWithRetry env payload r retries delay calls =
           (Inl (Error ''Max retries reached''), [])"
  using assms by (simp add: submitWithRetry.simps [of env payload r retries])

text \<open>Two refusals, then an answer.\<close>

lemma submit_third_attempt:
  assumes "purchaseCardOutcome env 0 payload = Inl x1"
    and "purchaseCardOutcome env 1 payload = Inl x2"
    and "purchaseCardOutcome env 2 payload = Inr data"
  shows "submitWithRetry env payload r 0 1000 0 =
           (Inr (r, data),
            [CallPurchaseCard payload, Sleep 1000, CallPurchaseCard payload, Sleep 2000,
             CallPurchaseCard payload])"
proof -
  have third: "submitWithRetry env payload r (Suc (Suc 0)) 4000 (Suc (Suc 0)) =
      (Inr (r, data), [CallPurchaseCard payload])"
    using assms(3) by (intro submit_returns) (simp_all add: maxRetries_def numeral_2_eq_2)
  have second: "submitWithRetry env payload r (Suc 0) 2000 (Suc 0) =
      (Inr (r, data), [CallPurchaseCard payload, Sleep 2000, CallPurchaseCard payload])"
    using assms(2) submit_retries [of "Suc 0" env "Suc 0" payload x2 r 2000] third
    by (simp add: maxRetries_def)
  show ?thesis
    using assms(1) submit_retries [of 0 env 0 payload x1 r 1000] second
    by (simp add: maxRetries_def)
qed

text \<open>Five refusals: five submissions, a wait after each of them, and the plain error that
  follows the loop.\<close>

lemma submit_five_refusals:
  assumes "\<forall>n<5. \<exists>x. purchaseCardOutcome env n payload = Inl x"
  shows "submitWithRetry env payload r 0 1000 0 =
           (Inl (Error ''Max retries reached''),
            [CallPurchaseCard payload, Sleep 1000, CallPurchaseCard payload, Sleep 2000,
             CallPurchaseCard payload, Sleep 4000, CallPurchaseCard payload, Sleep 8000,
             CallPurchaseCard payload, Sleep 16000])"
proof -
  obtain x0 where r0: "purchaseCardOutcome env 0 payload = Inl x0"
    using assms [rule_format, of 0] by auto
  obtain x1 where r1: "purchaseCardOutcome env (Suc 0) payload = Inl x1"
    using assms [rule_format, of "Suc 0"] by auto
  obtain x2 where r2: "purchaseCardOutcome env (Suc (Suc 0)) payload = Inl x2"
    using assms [rule_format, of "Suc (Suc 0)"] by auto
  obtain x3 where r3: "purchaseCardOutcome env (Suc (Suc (Suc 0))) payload = Inl x3"
    using assms [rule_format, of "Suc (Suc (Suc 0))"] by auto
  obtain x4 where r4: "purchaseCardOutcome env (Suc (Suc (Suc (Suc 0)))) payload = Inl x4"
    using assms [rule_format, of "Suc (Suc (Suc (Suc 0)))"] by auto
  have s5: "submitWithRetry env payload r (Suc (Suc (Suc (Suc (Suc 0))))) 32000
      (Suc (Suc (Suc (Suc (Suc 0))))) = (Inl (Error ''Max retries reached''), [])"
    by (rule submit_gives_up) (simp add: maxRetries_def)
  have s4: "submitWithRetry env payload r (Suc (Suc (Suc (Suc 0)))) 16000
      (Suc (Suc (Suc (Suc 0)))) =
        (Inl (Error ''Max retries reached''), [CallPurchaseCard payload, Sleep 16000])"
    using submit_retries [OF _ r4, of "Suc (Suc (Suc (Suc 0)))" r 16000] s5
    by (simp add: maxRetries_def)
  have s3: "submitWithRetry env payload r (Suc (Suc (Suc 0))) 8000 (Suc (Suc (Suc 0))) =
        (Inl (Error ''Max retries reached''),
         [CallPurchaseCard payload, Sleep 8000, CallPurchaseCard payload, Sleep 16000])"
    using submit_retries [OF _ r3, of "Suc (Suc (Suc 0))" r 8000] s4
    by (simp add: maxRetries_def)
  have s2: "submitWithRetry env payload r (Suc (Suc 0)) 4000 (Suc (Suc 0)) =
        (Inl (Error ''Max retries reached''),
         [CallPurchaseCard payload, Sleep 4000, CallPurchaseCard payload, Sleep 8000,
          CallPurchaseCard payload, Sleep 16000])"
    using submit_retries [OF _ r2, of "Suc (Suc 0)" r 4000] s3
    by (simp add: maxRetries_def)
  have s1: "submitWithRetry env payload r (Suc 0) 2000 (Suc 0) =
        (Inl (Error ''Max retries reached''),
         [CallPurchaseCard payload, Sleep 2000, CallPurchaseCard payload, Sleep 4000,
          CallPurchaseCard payload, Sleep 8000, CallPurchaseCard payload, Sleep 16000])"
    using submit_retries [OF _ r1, of "Suc 0" r 2000] s2
    by (simp add: maxRetries_def)
  show ?thesis
    using submit_retries [OF _ r0, of 0 r 1000] s1
    by (simp add: maxRetries_def)
qed

text \<open>The parts before the loop do not look at the answers of the order submissions.\<close>

lemma validateRequest_before_submission:
  "validateRequest lib (env \<lparr> purchaseCardOutcome := f \<rparr>) params = validateRequest lib env params"
  by (simp add: validateRequest_def ping_def fetchZebecCardPrograms_def
        cong: option.case_cong sum.case_cong if_cong)

lemma checkFunds_before_submission:
  "checkFunds lib (env \<lparr> purchaseCardOutcome := f \<rparr>) q = checkFunds lib env q"
  by (simp add: checkFunds_def cong: option.case_cong sum.case_cong if_cong)

lemma approveIfNeeded_before_submission:
  "approveIfNeeded (env \<lparr> purchaseCardOutcome := f \<rparr>) a = approveIfNeeded env a"
  by (simp add: approveIfNeeded_def cong: option.case_cong sum.case_cong if_cong)

lemma buyCard_before_submission:
  "buyCard lib (env \<lparr> purchaseCardOutcome := f \<rparr>) params cp a = buyCard lib env params cp a"
  by (simp add: buyCard_def cong: option.case_cong sum.case_cong if_cong)

lemma buildPayload_before_submission:
  "buildPayload service (env \<lparr> purchaseCardOutcome := f \<rparr>) params r =
     buildPayload service env params r"
  by (simp add: buildPayload_def cong: option.case_cong sum.case_cong if_cong)

lemmas before_submission = validateRequest_before_submission checkFunds_before_submission
  approveIfNeeded_before_submission buyCard_before_submission buildPayload_before_submission

text \<open>The method, once every part before the loop has returned.\<close>

lemma purchase_reaches_reporting:
  assumes "validateRequest lib env params = (Inr cardProgram, t1)"
    and "checkFunds lib env (params_quote params) = (Inr parsedAmount, t2)"
    and "approveIfNeeded env parsedAmount = (Inr u, t3)"
    and "buyCard lib env params cardProgram parsedAmount = (Inr buyCardReceipt, t4)"
    and "buildPayload service env params buyCardReceipt = (Inr payload, t5)"
  shows "purchaseCardWithUsdc service lib env params =
           (fst (submitWithRetry env payload buyCardReceipt 0 1000 0),
            t1 @ t2 @ t3 @ t4 @ t5 @ snd (submitWithRetry env payload buyCardReceipt 0 1000 0))"
  using assms by (simp add: purchaseCardWithUsdc_def andThen_def split: prod.splits)

text \<open>
  C2. When every step before the reporting has returned, and the order service refuses the
  first and the second submission and answers the third, \<^verbatim>\<open>purchaseCardWithUsdc\<close> submits,
  waits 1000 ms, submits, waits 2000 ms, submits a third time, and returns the receipt of
  the purchase with the answer to that third submission.
\<close>

theorem reporting_succeeds_on_third_attempt:
  assumes "validateRequest lib env params = (Inr cardProgram, t1)"
    and "checkFunds lib env (params_quote params) = (Inr parsedAmount, t2)"
    and "approveIfNeeded env parsedAmount = (Inr u, t3)"
    and "buyCard lib env params cardProgram parsedAmount = (Inr buyCardReceipt, t4)"
    and "buildPayload service env params buyCardReceipt = (Inr payload, t5)"
    and "purchaseCardOutcome env 0 payload = Inl x1"
    and "purchaseCardOutcome env 1 payload = Inl x2"
    and "purchaseCardOutcome env 2 payload = Inr data"
  shows "purchaseCardWithUsdc service lib env params =
           (Inr (buyCardReceipt, data),
            t1 @ t2 @ t3 @ t4 @ t5 @
            [CallPurchaseCard payload, Sleep 1000, CallPurchaseCard payload, Sleep 2000,
             CallPurchaseCard payload])"
  using purchase_reaches_reporting [OF assms(1-5)] submit_third_attempt [OF assms(6-8)]
  by simp

theorem reporting_succeeds_on_third_attempt_witness:
  "purchaseCardWithUsdc exampleService exampleLib twoFailuresEnv exampleParams =
     (Inr (exampleTxReceipt, exampleOrder),
      exampleCalls @
      [CallPurchaseCard examplePayload, Sleep 1000, CallPurchaseCard examplePayload, Sleep 2000,
       CallPurchaseCard examplePayload])"
proof -
  have first: "purchaseCardOutcome twoFailuresEnv 0 examplePayload =
      Inl ''Request failed with status code 500''"
    and second: "purchaseCardOutcome twoFailuresEnv 1 examplePayload =
      Inl ''Request failed with status code 500''"
    and third: "purchaseCardOutcome twoFailuresEnv 2 examplePayload = Inr exampleOrder"
    by (simp_all add: twoFailuresEnv_def)
  have "purchaseCardWithUsdc exampleService exampleLib twoFailuresEnv exampleParams =
     (Inr (exampleTxReceipt, exampleOrder),
      [CallPing, CallFetchPrograms ''NPL''] @
      [CallDecimals, CallBalanceOf, CallCardConfig, CallCardPurchases] @
      [CallAllowance, CallApprove 10500000, CallApproveWait] @
      [CallBuyCardDirect 10500000 ''non_reloadable'' ''sha256:johnchamling@gmail.com'' 300000,
       CallBuyWait] @
      [CallGetAddress] @
      [CallPurchaseCard examplePayload, Sleep 1000, CallPurchaseCard examplePayload, Sleep 2000,
       CallPurchaseCard examplePayload])"
  proof (rule reporting_succeeds_on_third_attempt [OF _ _ _ _ _ first second third])
    show "validateRequest exampleLib twoFailuresEnv exampleParams =
        (Inr exampleProgram, [CallPing, CallFetchPrograms ''NPL''])"
      by (simp add: twoFailuresEnv_def before_submission example_validateRequest)
    show "checkFunds exampleLib twoFailuresEnv (params_quote exampleParams) =
        (Inr 10500000, [CallDecimals, CallBalanceOf, CallCardConfig, CallCardPurchases])"
      by (simp add: twoFailuresEnv_def before_submission example_checkFunds example_quote)
    show "approveIfNeeded twoFailuresEnv 10500000 =
        (Inr (), [CallAllowance, CallApprove 10500000, CallApproveWait])"
      by (simp add: twoFailuresEnv_def before_submission example_approveIfNeeded)
    show "buyCard exampleLib twoFailuresEnv exampleParams exampleProgram 10500000 =
        (Inr exampleTxReceipt,
         [CallBuyCardDirect 10500000 ''non_reloadable'' ''sha256:johnchamling@gmail.com'' 300000,
          CallBuyWait])"
      by (simp add: twoFailuresEnv_def before_submission example_buyCard)
    show "buildPayload exampleService twoFailuresEnv exampleParams exampleTxReceipt =
        (Inr examplePayload, [CallGetAddress])"
      by (simp add: twoFailuresEnv_def before_submission example_buildPayload)
  qed
  then show ?thesis by (simp add: exampleCalls_def)
qed

text \<open>
  C1. The order service refuses all five submissions of the concrete purchase, the fifth
  with its own error. The method makes five submissions and no sixth, waits after each of
  them (16 seconds after the last), and throws the plain error that follows the loop: the
  error of the fifth refusal does not reach the caller.
\<close>

theorem five_refusals_lose_the_last_error:
  "purchaseCardOutcome fiveFailuresEnv 4 examplePayload =
     Inl ''Request failed with status code 503'' \<and>
   purchaseCardWithUsdc exampleService exampleLib fiveFailuresEnv exampleParams =
     (Inl (Error ''Max retries reached''),
      exampleCalls @
      [CallPurchaseCard examplePayload, Sleep 1000, CallPurchaseCard examplePayload, Sleep 2000,
       CallPurchaseCard examplePayload, Sleep 4000, CallPurchaseCard examplePayload, Sleep 8000,
       CallPurchaseCard examplePayload, Sleep 16000]) \<and>
   length (filter isSubmission
     (snd (purchaseCardWithUsdc exampleService exampleLib fiveFailuresEnv exampleParams))) = 5 \<and>
   fst (purchaseCardWithUsdc exampleService exampleLib fiveFailuresEnv exampleParams)
     \<noteq> Inl (External ''Request failed with status code 503'')"
proof -
  have refused: "\<forall>n<5. \<exists>x. purchaseCardOutcome fiveFailuresEnv n examplePayload = Inl x"
    by (simp add: fiveFailuresEnv_def)
  have "purchaseCardWithUsdc exampleService exampleLib fiveFailuresEnv exampleParams =
     (fst (submitWithRetry fiveFailuresEnv examplePayload exampleTxReceipt 0 1000 0),
      [CallPing, CallFetchPrograms ''NPL''] @
      [CallDecimals, CallBalanceOf, CallCardConfig, CallCardPurchases] @
      [CallAllowance, CallApprove 10500000, CallApproveWait] @
      [CallBuyCardDirect 10500000 ''non_reloadable'' ''sha256:johnchamling@gmail.com'' 300000,
       CallBuyWait] @
      [CallGetAddress] @
      snd (submitWithRetry fiveFailuresEnv examplePayload exampleTxReceipt 0 1000 0))"
  proof (rule purchase_reaches_reporting)
    show "validateRequest exampleLib fiveFailuresEnv exampleParams =
        (Inr exampleProgram, [CallPing, CallFetchPrograms ''NPL''])"
      by (simp add: fiveFailuresEnv_def before_submission example_validateRequest)
    show "checkFunds exampleLib fiveFailuresEnv (params_quote exampleParams) =
        (Inr 10500000, [CallDecimals, CallBalanceOf, CallCardConfig, CallCardPurchases])"
      by (simp add: fiveFailuresEnv_def before_submission example_checkFunds example_quote)
    show "approveIfNeeded fiveFailuresEnv 10500000 =
        (Inr (), [CallAllowance, CallApprove 10500000, CallApproveWait])"
      by (simp add: fiveFailuresEnv_def before_submission example_approveIfNeeded)
    show "buyCard exampleLib fiveFailuresEnv exampleParams exampleProgram 10500000 =
        (Inr exampleTxReceipt,
         [CallBuyCardDirect 10500000 ''non_reloadable'' ''sha256:johnchamling@gmail.com'' 300000,
          CallBuyWait])"
      by (simp add: fiveFailuresEnv_def before_submission example_buyCard)
    show "buildPayload exampleService fiveFailuresEnv exampleParams exampleTxReceipt =
        (Inr examplePayload, [CallGetAddress])"
      by (simp add: fiveFailuresEnv_def before_submission example_buildPayload)
  qed
  then have run: "purchaseCardWithUsdc exampleService exampleLib fiveFailuresEnv exampleParams =
     (Inl (Error ''Max retries reached''),
      exampleCalls @
      [CallPurchaseCard examplePayload, Sleep 1000, CallPurchaseCard examplePayload, Sleep 2000,
       CallPurchaseCard examplePayload, Sleep 4000, CallPurchaseCard examplePayload, Sleep 8000,
       CallPurchaseCard examplePayload, Sleep 16000])"
    by (simp add: submit_five_refusals [OF refused] exampleCalls_def)
  have last: "purchaseCardOutcome fiveFailuresEnv 4 examplePayload =
      Inl ''Request failed with status code 503''"
    by (simp add: fiveFailuresEnv_def)
  have five: "length (filter isSubmission
      (snd (purchaseCardWithUsdc exampleService exampleLib fiveFailuresEnv exampleParams))) = 5"
    by (simp add: run exampleCalls_def)
  from run last five show ?thesis by simp
qed

subsection \<open>Where an error of the method comes from\<close>

lemma andThen_error:
  "fst (andThen m f) = Inl e \<Longrightarrow> fst m = Inl e \<or> (\<exists>v. fst m = Inr v \<and> fst (f v) = Inl e)"
  by (cases m) (auto simp: andThen_def split: sum.splits prod.splits)

lemma await_error: "fst (await c r) = Inl e \<Longrightarrow> \<exists>x. e = External x"
  by (auto simp: await_def split: sum.splits)

lemma checkFunds_errors:
  "fst (checkFunds lib env q) = Inl e \<Longrightarrow>
     (\<exists>x. e = External x) \<or> (\<exists>a b. e = NotEnoughBalanceError a b) \<or>
     (\<exists>a b. e = CardPurchaseAmountOutOfRangeError a b) \<or>
     (\<exists>a b. e = DailyCardPurchaseLimitExceedError a b)"
  unfolding checkFunds_def
  by (auto dest!: andThen_error await_error simp: throw_def ret_def split: sum.splits if_splits)

lemma approveIfNeeded_errors:
  "fst (approveIfNeeded env a) = Inl e \<Longrightarrow> \<exists>x. e = External x"
  unfolding approveIfNeeded_def
  by (auto dest!: andThen_error await_error simp: throw_def ret_def split: sum.splits if_splits)

lemma buyCard_errors:
  "fst (buyCard lib env params cp a) = Inl e \<Longrightarrow>
     (\<exists>x. e = External x) \<or> (\<exists>h. e = Error (''Could not get tx receipt for tx: '' @ h))"
  unfolding buyCard_def Let_def
  by (auto dest!: andThen_error await_error simp: throw_def ret_def
        split: sum.splits if_splits option.splits)

lemma buildPayload_errors:
  "fst (buildPayload service env params r) = Inl e \<Longrightarrow> \<exists>x. e = External x"
  unfolding buildPayload_def Let_def
  by (auto dest!: andThen_error await_error simp: throw_def ret_def split: sum.splits if_splits)

lemma submitWithRetry_errors:
  "fst (submitWithRetry env payload r retries delay calls) = Inl e \<Longrightarrow>
     (\<exists>x. e = External x) \<or> e = Error ''Max retries reached''"
proof (induction env payload r retries delay calls rule: submitWithRetry.induct)
  case (1 env payload r retries delay calls)
  show ?case
  proof (cases "retries < maxRetries")
    case False
    with "1.prems" show ?thesis by (simp add: submit_gives_up)
  next
    case True
    note lt = this
    show ?thesis
    proof (cases "purchaseCardOutcome env calls payload")
      case (Inr data)
      with lt "1.prems" show ?thesis by (simp add: submit_returns)
    next
      case (Inl x)
      have pc: "purchaseCard env calls payload = (Inl (External x), [CallPurchaseCard payload])"
        by (simp add: purchaseCard_def await_def Inl)
      from lt have nge: "\<not> maxRetries \<le> retries" by simp
      from "1.prems" have
        "fst (submitWithRetry env payload r (retries + 1) (delay * 2) (calls + 1)) = Inl e"
        by (simp add: submit_retries [OF lt Inl])
      with "1.IH" [OF lt pc [symmetric] refl nge] show ?thesis by blast
    qed
  qed
qed

text \<open>An error of the method is an error of the validation, an error of the checks on the
  funds, something a collaborator threw, the missing receipt, or the end of the retries.\<close>

lemma purchase_error_cases:
  assumes "fst (purchaseCardWithUsdc service lib env params) = Inl e"
  shows "fst (validateRequest lib env params) = Inl e \<or>
         fst (checkFunds lib env (params_quote params)) = Inl e \<or>
         (\<exists>x. e = External x) \<or>
         (\<exists>h. e = Error (''Could not get tx receipt for tx: '' @ h)) \<or>
         e = Error ''Max retries reached''"
  using assms unfolding purchaseCardWithUsdc_def
  by (auto dest!: andThen_error
        dest: approveIfNeeded_errors buyCard_errors buildPayload_errors submitWithRetry_errors)

lemma purchase_stops_at_validation:
  "validateRequest lib env params = (Inl e, t) \<Longrightarrow>
     purchaseCardWithUsdc service lib env params = (Inl e, t)"
  by (simp add: purchaseCardWithUsdc_def andThen_def)

text \<open>The validation once the service is up and the program is found: the four checks on
  the recipient and the quote, in the order of the source.\<close>

lemma validateRequest_found:
  assumes "pingOutcome env = Inr u"
    and "fetchProgramsOutcome env (countryCode (params_recipient params)) = Inr details"
    and "List.find (\<lambda>p. program_id p = params_cardProgramId params) (availablePrograms details)
           = Some cardProgram"
  shows "validateRequest lib env params =
     ((if \<not> isEmailValid (emailAddress (params_recipient params)) then
         Inl (InvalidEmailError (emailAddress (params_recipient params)))
       else if toLowerCase (token (params_quote params)) \<noteq> ''usdc'' then
         Inl (Error ''Invalid Quote: Quote not for USDC'')
       else if strictNotEqual (amountRequested (params_quote params))
                 (formatAmount lib (params_amount params) 2) then
         Inl (Error ''Invalid Quote: Amount request and passed amount does not match'')
       else if quoteExpired (params_quote params) (dateNow env) then
         Inl (Error ''Quote expired'')
       else if \<not> list_ex (\<lambda>c. c = targetCurrency (params_quote params))
                   (availableCurrencies cardProgram) then
         Inl (Error ''Invalid Quote: Target currency in quote not available in card program'')
       else Inr cardProgram),
      [CallPing, CallFetchPrograms (countryCode (params_recipient params))])"
  using assms
  by (simp add: validateRequest_def ping_def fetchZebecCardPrograms_def step_defs)

lemma validateRequest_expired:
  assumes "quoteExpired (params_quote params) (dateNow env)"
  shows "\<exists>e. fst (validateRequest lib env params) = Inl e"
  using assms unfolding validateRequest_def
  by (auto simp: ping_def fetchZebecCardPrograms_def step_defs split: sum.splits option.splits)

subsection \<open>The expiry of the quote\<close>

text \<open>
  C3, as the code has it. The quote counts as expired exactly when the current time is
  strictly after \<open>expiresIn\<close> minus 20 seconds. When it is, \<^verbatim>\<open>purchaseCardWithUsdc\<close> throws
  and has made no chain call (no read, no approval, no buy). When the checks that come
  first pass (the service answers, the program is found, the email is well formed, the
  quote is for USDC and for the amount passed), the method throws the error
  \<open>Quote expired\<close> exactly when the current time is strictly after \<open>expiresIn\<close> minus 20
  seconds.
\<close>

theorem expired_quote_rejected:
  "(quoteExpired q now \<longleftrightarrow> now > expiresIn q - 20000) \<and>
   (dateNow env > expiresIn (params_quote params) - 20000 \<longrightarrow>
      (\<exists>e. fst (purchaseCardWithUsdc service lib env params) = Inl e) \<and>
      \<not> list_ex isChainCall (snd (purchaseCardWithUsdc service lib env params))) \<and>
   (pingOutcome env = Inr u \<and>
    fetchProgramsOutcome env (countryCode (params_recipient params)) = Inr details \<and>
    List.find (\<lambda>p. program_id p = params_cardProgramId params) (availablePrograms details)
      = Some cardProgram \<and>
    isEmailValid (emailAddress (params_recipient params)) \<and>
    toLowerCase (token (params_quote params)) = ''usdc'' \<and>
    \<not> strictNotEqual (amountRequested (params_quote params))
        (formatAmount lib (params_amount params) 2)
    \<longrightarrow>
      (fst (purchaseCardWithUsdc service lib env params) = Inl (Error ''Quote expired'')
         \<longleftrightarrow> dateNow env > expiresIn (params_quote params) - 20000))"
proof -
  have guard: "quoteExpired q now \<longleftrightarrow> now > expiresIn q - 20000"
    by (simp add: quoteExpired_def)
  have stops: "(\<exists>e. fst (purchaseCardWithUsdc service lib env params) = Inl e) \<and>
      \<not> list_ex isChainCall (snd (purchaseCardWithUsdc service lib env params))"
    if late: "dateNow env > expiresIn (params_quote params) - 20000"
  proof -
    from late have "quoteExpired (params_quote params) (dateNow env)"
      by (simp add: quoteExpired_def)
    then obtain e where "fst (validateRequest lib env params) = Inl e"
      using validateRequest_expired by blast
    then have v: "validateRequest lib env params = (Inl e, snd (validateRequest lib env params))"
      by (metis prod.collapse)
    have p: "purchaseCardWithUsdc service lib env params =
        (Inl e, snd (validateRequest lib env params))"
      by (rule purchase_stops_at_validation [OF v])
    have "\<not> isChainCall c" if "c \<in> set (snd (validateRequest lib env params))" for c
      using validateRequest_calls [OF that] by auto
    with p show ?thesis by (auto simp: list_ex_iff)
  qed
  have named: "fst (purchaseCardWithUsdc service lib env params) = Inl (Error ''Quote expired'')
         \<longleftrightarrow> dateNow env > expiresIn (params_quote params) - 20000"
    if up: "pingOutcome env = Inr u"
      and fetched: "fetchProgramsOutcome env (countryCode (params_recipient params)) = Inr details"
      and found: "List.find (\<lambda>p. program_id p = params_cardProgramId params)
          (availablePrograms details) = Some cardProgram"
      and email: "isEmailValid (emailAddress (params_recipient params))"
      and usdc: "toLowerCase (token (params_quote params)) = ''usdc''"
      and same: "\<not> strictNotEqual (amountRequested (params_quote params))
          (formatAmount lib (params_amount params) 2)"
  proof
    assume late: "dateNow env > expiresIn (params_quote params) - 20000"
    have "validateRequest lib env params =
        (Inl (Error ''Quote expired''),
         [CallPing, CallFetchPrograms (countryCode (params_recipient params))])"
      using late email usdc same
      by (simp add: validateRequest_found [OF up fetched found] quoteExpired_def)
    from purchase_stops_at_validation [OF this]
    show "fst (purchaseCardWithUsdc service lib env params) = Inl (Error ''Quote expired'')"
      by simp
  next
    assume thrown: "fst (purchaseCardWithUsdc service lib env params) = Inl (Error ''Quote expired'')"
    show "dateNow env > expiresIn (params_quote params) - 20000"
    proof (rule ccontr)
      assume early: "\<not> dateNow env > expiresIn (params_quote params) - 20000"
      have v: "fst (validateRequest lib env params) \<noteq> Inl (Error ''Quote expired'')"
        using early email usdc same
        by (simp add: validateRequest_found [OF up fetched found] quoteExpired_def)
      have f: "fst (checkFunds lib env (params_quote params)) \<noteq> Inl (Error ''Quote expired'')"
        using checkFunds_errors [of lib env "params_quote params" "Error ''Quote expired''"]
        by auto
      from purchase_error_cases [OF thrown] v f show False by simp
    qed
  qed
  from guard stops named show ?thesis by blast
qed

text \<open>The parts after the validation do not read the clock of the expiry check.\<close>

lemma checkFunds_after_expiry_check:
  "checkFunds lib (env \<lparr> dateNow := d \<rparr>) q = checkFunds lib env q"
  by (simp add: checkFunds_def cong: option.case_cong sum.case_cong if_cong)

lemma approveIfNeeded_after_expiry_check:
  "approveIfNeeded (env \<lparr> dateNow := d \<rparr>) a = approveIfNeeded env a"
  by (simp add: approveIfNeeded_def cong: option.case_cong sum.case_cong if_cong)

lemma buyCard_after_expiry_check:
  "buyCard lib (env \<lparr> dateNow := d \<rparr>) params cp a = buyCard lib env params cp a"
  by (simp add: buyCard_def cong: option.case_cong sum.case_cong if_cong)

lemma buildPayload_after_expiry_check:
  "buildPayload service (env \<lparr> dateNow := d \<rparr>) params r = buildPayload service env params r"
  by (simp add: buildPayload_def cong: option.case_cong sum.case_cong if_cong)

lemmas after_expiry_check = checkFunds_after_expiry_check approveIfNeeded_after_expiry_check
  buyCard_after_expiry_check buildPayload_after_expiry_check

theorem expired_quote_rejected_witness:
  "dateNow expiredEnv > expiresIn (params_quote exampleParams) - 20000 \<and>
   fst (purchaseCardWithUsdc exampleService exampleLib expiredEnv exampleParams)
     = Inl (Error ''Quote expired'') \<and>
   \<not> list_ex isChainCall (snd (purchaseCardWithUsdc exampleService exampleLib expiredEnv exampleParams)) \<and>
   \<not> dateNow marginEnv > expiresIn (params_quote exampleParams) - 20000 \<and>
   fst (purchaseCardWithUsdc exampleService exampleLib marginEnv exampleParams)
     \<noteq> Inl (Error ''Quote expired'')"
proof -
  have late: "dateNow expiredEnv > expiresIn (params_quote exampleParams) - 20000"
    by (simp add: expiredEnv_def example_defs)
  have early: "\<not> dateNow marginEnv > expiresIn (params_quote exampleParams) - 20000"
    by (simp add: marginEnv_def example_defs)
  have email: "isEmailValid (emailAddress (params_recipient exampleParams))"
    by (simp add: exampleParams_def exampleRecipient_def example_email_valid)
  have usdc: "toLowerCase (token (params_quote exampleParams)) = ''usdc''"
    by (simp add: exampleParams_def exampleQuote_def example_token_lower)
  have same: "\<not> strictNotEqual (amountRequested (params_quote exampleParams))
      (formatAmount exampleLib (params_amount exampleParams) 2)"
    by (simp add: strictNotEqual_def formatAmount_def example_defs)
  have found: "List.find (\<lambda>p. program_id p = params_cardProgramId exampleParams)
      (availablePrograms \<lparr> availablePrograms = [exampleProgram] \<rparr>) = Some exampleProgram"
    by (simp add: exampleParams_def exampleProgram_def)
  have up1: "pingOutcome expiredEnv = Inr ()"
    and fetched1: "fetchProgramsOutcome expiredEnv (countryCode (params_recipient exampleParams))
      = Inr \<lparr> availablePrograms = [exampleProgram] \<rparr>"
    by (simp_all add: expiredEnv_def exampleEnv_def)
  have up2: "pingOutcome marginEnv = Inr ()"
    and fetched2: "fetchProgramsOutcome marginEnv (countryCode (params_recipient exampleParams))
      = Inr \<lparr> availablePrograms = [exampleProgram] \<rparr>"
    by (simp_all add: marginEnv_def exampleEnv_def)
  note at_expired = expired_quote_rejected [where env = expiredEnv and params = exampleParams
      and service = exampleService and lib = exampleLib and u = "()"
      and details = "\<lparr> availablePrograms = [exampleProgram] \<rparr>" and cardProgram = exampleProgram
      and q = exampleQuote and now = 0]
  note at_margin = expired_quote_rejected [where env = marginEnv and params = exampleParams
      and service = exampleService and lib = exampleLib and u = "()"
      and details = "\<lparr> availablePrograms = [exampleProgram] \<rparr>" and cardProgram = exampleProgram
      and q = exampleQuote and now = 0]
  from at_expired late up1 fetched1 found email usdc same
  have "fst (purchaseCardWithUsdc exampleService exampleLib expiredEnv exampleParams)
      = Inl (Error ''Quote expired'') \<and>
    \<not> list_ex isChainCall (snd (purchaseCardWithUsdc exampleService exampleLib expiredEnv exampleParams))"
    by blast
  moreover from at_margin early up2 fetched2 found email usdc same
  have "fst (purchaseCardWithUsdc exampleService exampleLib marginEnv exampleParams)
      \<noteq> Inl (Error ''Quote expired'')"
    by blast
  ultimately show ?thesis using late early by blast
qed

text \<open>
  C3 as the specification words it fails: at exactly \<open>expiresIn\<close> minus 20 seconds the quote
  is not rejected, and the purchase runs through its chain calls to the end.
\<close>

theorem quote_at_margin_counterexample:
  "dateNow marginEnv \<ge> expiresIn (params_quote exampleParams) - 20000 \<and>
   purchaseCardWithUsdc exampleService exampleLib marginEnv exampleParams =
     (Inr (exampleTxReceipt, exampleOrder), exampleCalls @ [CallPurchaseCard examplePayload]) \<and>
   list_ex isChainCall (snd (purchaseCardWithUsdc exampleService exampleLib marginEnv exampleParams))"
proof -
  have at_margin: "dateNow marginEnv \<ge> expiresIn (params_quote exampleParams) - 20000"
    by (simp add: marginEnv_def example_defs)
  have validated: "validateRequest exampleLib marginEnv exampleParams =
      (Inr exampleProgram, [CallPing, CallFetchPrograms ''NPL''])"
    by (simp add: validateRequest_def ping_def fetchZebecCardPrograms_def step_defs example_defs
          marginEnv_def example_email_valid example_token_lower strictNotEqual_def
          formatAmount_def quoteExpired_def)
  have submitted: "submitWithRetry marginEnv examplePayload exampleTxReceipt 0 1000 0 =
      (Inr (exampleTxReceipt, exampleOrder), [CallPurchaseCard examplePayload])"
    by (rule submit_returns) (simp_all add: maxRetries_def marginEnv_def exampleEnv_def)
  have run: "purchaseCardWithUsdc exampleService exampleLib marginEnv exampleParams =
      (Inr (exampleTxReceipt, exampleOrder), exampleCalls @ [CallPurchaseCard examplePayload])"
    using submitted
    by (simp add: purchaseCardWithUsdc_def andThen_def validated example_quote
          marginEnv_def [THEN arg_cong, of "\<lambda>e. checkFunds exampleLib e exampleQuote"]
          marginEnv_def [THEN arg_cong, of "\<lambda>e. approveIfNeeded e 10500000"]
          marginEnv_def [THEN arg_cong,
            of "\<lambda>e. buyCard exampleLib e exampleParams exampleProgram 10500000"]
          marginEnv_def [THEN arg_cong,
            of "\<lambda>e. buildPayload exampleService e exampleParams exampleTxReceipt"]
          after_expiry_check example_checkFunds example_approveIfNeeded example_buyCard
          example_buildPayload exampleCalls_def)
  have "list_ex isChainCall exampleCalls"
    by (simp add: exampleCalls_def)
  with at_margin run show ?thesis by simp
qed

subsection \<open>The currency of the quote\<close>

text \<open>
  C6. When the program chosen from the catalogue of the recipient's region does not list
  the quote's target currency among its available currencies, \<^verbatim>\<open>purchaseCardWithUsdc\<close>
  throws one of the errors of its validation, having called only the order service: no
  chain call, so no approval and no buy. When the checks that come first pass (email,
  token, amount, expiry), the error is the one of the target currency.
\<close>

theorem unavailable_currency_rejected:
  assumes "pingOutcome env = Inr u"
    and "fetchProgramsOutcome env (countryCode (params_recipient params)) = Inr details"
    and "List.find (\<lambda>p. program_id p = params_cardProgramId params) (availablePrograms details)
           = Some cardProgram"
    and "targetCurrency (params_quote params) \<notin> set (availableCurrencies cardProgram)"
  shows
    "(\<exists>e. fst (purchaseCardWithUsdc service lib env params) = Inl e \<and>
          e \<in> {InvalidEmailError (emailAddress (params_recipient params)),
               Error ''Invalid Quote: Quote not for USDC'',
               Error ''Invalid Quote: Amount request and passed amount does not match'',
               Error ''Quote expired'',
               Error ''Invalid Quote: Target currency in quote not available in card program''}) \<and>
     snd (purchaseCardWithUsdc service lib env params) =
       [CallPing, CallFetchPrograms (countryCode (params_recipient params))] \<and>
     \<not> list_ex isChainCall (snd (purchaseCardWithUsdc service lib env params)) \<and>
     \<not> list_ex isTransaction (snd (purchaseCardWithUsdc service lib env params)) \<and>
     (isEmailValid (emailAddress (params_recipient params)) \<and>
      toLowerCase (token (params_quote params)) = ''usdc'' \<and>
      \<not> strictNotEqual (amountRequested (params_quote params))
          (formatAmount lib (params_amount params) 2) \<and>
      \<not> quoteExpired (params_quote params) (dateNow env)
      \<longrightarrow> fst (purchaseCardWithUsdc service lib env params) =
            Inl (Error ''Invalid Quote: Target currency in quote not available in card program''))"
proof -
  from assms(4) have missing: "\<not> list_ex (\<lambda>c. c = targetCurrency (params_quote params))
      (availableCurrencies cardProgram)"
    by (auto simp: list_ex_iff)
  have "\<exists>e. validateRequest lib env params =
        (Inl e, [CallPing, CallFetchPrograms (countryCode (params_recipient params))]) \<and>
      e \<in> {InvalidEmailError (emailAddress (params_recipient params)),
               Error ''Invalid Quote: Quote not for USDC'',
               Error ''Invalid Quote: Amount request and passed amount does not match'',
               Error ''Quote expired'',
               Error ''Invalid Quote: Target currency in quote not available in card program''} \<and>
      (isEmailValid (emailAddress (params_recipient params)) \<and>
       toLowerCase (token (params_quote params)) = ''usdc'' \<and>
       \<not> strictNotEqual (amountRequested (params_quote params))
          (formatAmount lib (params_amount params) 2) \<and>
       \<not> quoteExpired (params_quote params) (dateNow env)
       \<longrightarrow> e = Error ''Invalid Quote: Target currency in quote not available in card program'')"
    unfolding validateRequest_found [OF assms(1-3)] using missing by auto
  then obtain e where all: "validateRequest lib env params =
        (Inl e, [CallPing, CallFetchPrograms (countryCode (params_recipient params))]) \<and>
      e \<in> {InvalidEmailError (emailAddress (params_recipient params)),
               Error ''Invalid Quote: Quote not for USDC'',
               Error ''Invalid Quote: Amount request and passed amount does not match'',
               Error ''Quote expired'',
               Error ''Invalid Quote: Target currency in quote not available in card program''} \<and>
      (isEmailValid (emailAddress (params_recipient params)) \<and>
       toLowerCase (token (params_quote params)) = ''usdc'' \<and>
       \<not> strictNotEqual (amountRequested (params_quote params))
          (formatAmount lib (params_amount params) 2) \<and>
       \<not> quoteExpired (params_quote params) (dateNow env)
       \<longrightarrow> e = Error ''Invalid Quote: Target currency in quote not available in card program'')"
    by (rule exE)
  note v = all [THEN conjunct1]
  note kinds = all [THEN conjunct2, THEN conjunct1]
  note last = all [THEN conjunct2, THEN conjunct2]
  have p: "purchaseCardWithUsdc service lib env params =
      (Inl e, [CallPing, CallFetchPrograms (countryCode (params_recipient params))])"
    by (rule purchase_stops_at_validation [OF v])
  show ?thesis
    using kinds last by (simp add: p isTransaction_def)
qed

theorem unavailable_currency_rejected_witness:
  "targetCurrency (params_quote poundParams) \<notin> set (availableCurrencies exampleProgram) \<and>
   purchaseCardWithUsdc exampleService exampleLib exampleEnv poundParams =
     (Inl (Error ''Invalid Quote: Target currency in quote not available in card program''),
      [CallPing, CallFetchPrograms ''NPL''])"
proof -
  have up: "pingOutcome exampleEnv = Inr ()"
    and fetched: "fetchProgramsOutcome exampleEnv (countryCode (params_recipient poundParams))
      = Inr \<lparr> availablePrograms = [exampleProgram] \<rparr>"
    by (simp_all add: exampleEnv_def)
  have found: "List.find (\<lambda>p. program_id p = params_cardProgramId poundParams)
      (availablePrograms \<lparr> availablePrograms = [exampleProgram] \<rparr>) = Some exampleProgram"
    by (simp add: poundParams_def exampleParams_def exampleProgram_def)
  have missing: "targetCurrency (params_quote poundParams) \<notin> set (availableCurrencies exampleProgram)"
    by (simp add: poundParams_def exampleProgram_def)
  have email: "isEmailValid (emailAddress (params_recipient poundParams))"
    by (simp add: poundParams_def exampleParams_def exampleRecipient_def example_email_valid)
  have usdc: "toLowerCase (token (params_quote poundParams)) = ''usdc''"
    by (simp add: poundParams_def exampleQuote_def example_token_lower)
  have same: "\<not> strictNotEqual (amountRequested (params_quote poundParams))
      (formatAmount exampleLib (params_amount poundParams) 2)"
    by (simp add: strictNotEqual_def formatAmount_def poundParams_def example_defs)
  have fresh: "\<not> quoteExpired (params_quote poundParams) (dateNow exampleEnv)"
    by (simp add: quoteExpired_def poundParams_def example_defs)
  have cc: "countryCode (params_recipient poundParams) = ''NPL''"
    by (simp add: poundParams_def exampleParams_def exampleRecipient_def)
  note rejected = unavailable_currency_rejected [OF up fetched found missing,
      of exampleService exampleLib]
  from rejected email usdc same fresh
  have "fst (purchaseCardWithUsdc exampleService exampleLib exampleEnv poundParams) =
      Inl (Error ''Invalid Quote: Target currency in quote not available in card program'')"
    by blast
  moreover from rejected
  have "snd (purchaseCardWithUsdc exampleService exampleLib exampleEnv poundParams) =
      [CallPing, CallFetchPrograms ''NPL'']"
    by (simp add: cc)
  ultimately show ?thesis using missing by (simp add: prod_eq_iff)
qed

subsection \<open>The day of the last purchase\<close>

text \<open>Two checks of the calendar model: the epoch is Thursday, 1 January 1970, and
  day 19782 is 29 February 2024.\<close>

lemma calendar_epoch:
  "getUTCFullYear (DateOf 0) = Some 1970 \<and> getUTCMonth (DateOf 0) = Some 0 \<and>
   getUTCDate (DateOf 0) = Some 1 \<and> getUTCDay (DateOf 0) = Some 4"
  by code_simp

lemma calendar_leap_day:
  "getUTCFullYear (DateOf (19782 * 86400000)) = Some 2024 \<and>
   getUTCMonth (DateOf (19782 * 86400000)) = Some 1 \<and>
   getUTCDate (DateOf (19782 * 86400000)) = Some 29"
  by code_simp

lemma monday_1_january_2024:
  "getUTCDay (newDate (1704067200 * 1000)) = Some 1 \<and>
   getUTCDate (newDate (1704067200 * 1000)) = Some 1 \<and>
   getUTCMonth (newDate (1704067200 * 1000)) = Some 0 \<and>
   getUTCFullYear (newDate (1704067200 * 1000)) = Some 2024"
  by code_simp

lemma monday_8_january_2024:
  "getUTCDay (DateOf 1704672000000) = Some 1 \<and>
   getUTCDate (DateOf 1704672000000) = Some 8 \<and>
   getUTCMonth (DateOf 1704672000000) = Some 0 \<and>
   getUTCFullYear (DateOf 1704672000000) = Some 2024"
  by code_simp

lemma mondays_same_day:
  "areDatesOfSameDay (DateOf 1704672000000) (newDate (1704067200 * 1000))"
  using monday_1_january_2024 monday_8_january_2024
  by (simp add: areDatesOfSameDay_def strictEqual_def)

text \<open>
  C4. The last purchase on record was made on Monday, 1 January 2024, and the clock stands
  at Monday, 8 January 2024: the two instants agree on the month and the year and differ
  in the day of the month. \<^verbatim>\<open>areDatesOfSameDay\<close> compares \<^verbatim>\<open>getUTCDay\<close>, the day of the
  week, and takes them for the same day; the day's total becomes the recorded 4995 units
  plus the 10.5 of this purchase, and the purchase is refused for a daily limit of 5000
  that the 10.5 alone would respect.
\<close>

theorem same_weekday_taken_for_same_day:
  "getUTCDate (DateOf 1704672000000) = Some 8 \<and>
   getUTCDate (newDate (1704067200 * 1000)) = Some 1 \<and>
   getUTCDay (DateOf 1704672000000) = getUTCDay (newDate (1704067200 * 1000)) \<and>
   areDatesOfSameDay (DateOf 1704672000000) (newDate (1704067200 * 1000)) \<and>
   cardPurchaseOfDay 1704672000000
     \<lparr> unixInRecord = 1704067200, totalCardBoughtPerDay = 4995000000 \<rparr> 10500000 = 5005500000 \<and>
   purchaseCardWithUsdc exampleService exampleLib sameWeekdayEnv exampleParams =
     (Inl (DailyCardPurchaseLimitExceedError ''5000.0'' ''4995.0''),
      [CallPing, CallFetchPrograms ''NPL'', CallDecimals, CallBalanceOf, CallCardConfig,
       CallCardPurchases])"
proof -
  have total: "cardPurchaseOfDay 1704672000000
     \<lparr> unixInRecord = 1704067200, totalCardBoughtPerDay = 4995000000 \<rparr> 10500000 = 5005500000"
    using mondays_same_day by (simp add: cardPurchaseOfDay_def)
  have validated: "validateRequest exampleLib sameWeekdayEnv exampleParams =
      (Inr exampleProgram, [CallPing, CallFetchPrograms ''NPL''])"
    by (simp add: validateRequest_def ping_def fetchZebecCardPrograms_def step_defs example_defs
          sameWeekdayEnv_def example_email_valid example_token_lower strictNotEqual_def
          formatAmount_def quoteExpired_def)
  have refused: "checkFunds exampleLib sameWeekdayEnv exampleQuote =
      (Inl (DailyCardPurchaseLimitExceedError ''5000.0'' ''4995.0''),
       [CallDecimals, CallBalanceOf, CallCardConfig, CallCardPurchases])"
    using total
    by (simp add: checkFunds_def step_defs sameWeekdayEnv_def exampleEnv_def exampleLib_def
          exampleQuote_def)
  have run: "purchaseCardWithUsdc exampleService exampleLib sameWeekdayEnv exampleParams =
     (Inl (DailyCardPurchaseLimitExceedError ''5000.0'' ''4995.0''),
      [CallPing, CallFetchPrograms ''NPL'', CallDecimals, CallBalanceOf, CallCardConfig,
       CallCardPurchases])"
    by (simp add: purchaseCardWithUsdc_def andThen_def validated example_quote refused)
  from monday_1_january_2024 monday_8_january_2024 mondays_same_day total run
  show ?thesis by simp
qed

subsection \<open>The range of the amount\<close>

lemma checkFunds_out_of_range:
  assumes "decimalsOutcome env = Inr decimals"
    and "parseUnits lib (numberToString lib (totalPrice q)) decimals = Inr parsedAmount"
    and "balanceOfOutcome env = Inr usdcBalance"
    and "\<not> parsedAmount > usdcBalance"
    and "cardConfigOutcome env = Inr cardConfig"
    and "parsedAmount < minCardAmount cardConfig \<or> parsedAmount > maxCardAmount cardConfig"
  shows "checkFunds lib env q =
     (Inl (CardPurchaseAmountOutOfRangeError
             (formatUnits lib (minCardAmount cardConfig) decimals)
             (formatUnits lib (maxCardAmount cardConfig) decimals)),
      [CallDecimals, CallBalanceOf, CallCardConfig])"
  using assms by (auto simp: checkFunds_def step_defs)

lemma checkFunds_in_range:
  assumes "decimalsOutcome env = Inr decimals"
    and "parseUnits lib (numberToString lib (totalPrice q)) decimals = Inr parsedAmount"
    and "balanceOfOutcome env = Inr usdcBalance"
    and "\<not> parsedAmount > usdcBalance"
    and "cardConfigOutcome env = Inr cardConfig"
    and "\<not> (parsedAmount < minCardAmount cardConfig \<or> parsedAmount > maxCardAmount cardConfig)"
  shows "fst (checkFunds lib env q) \<noteq> Inl (CardPurchaseAmountOutOfRangeError a b)"
  using assms by (auto simp: checkFunds_def step_defs split: sum.splits)

text \<open>
  C7. For a purchase that reaches the range check (the validation has returned, the
  decimals, the amount in base units, the balance and the card configuration have been
  read, the balance suffices), \<^verbatim>\<open>purchaseCardWithUsdc\<close> throws a
  \<open>CardPurchaseAmountOutOfRangeError\<close> exactly when the amount is strictly below the
  configured minimum or strictly above the configured maximum; it is then thrown right
  after the read of the configuration, with the two bounds. An amount equal to the minimum
  or to the maximum passes the check.
\<close>

theorem range_check_bounds_inclusive:
  assumes "validateRequest lib env params = (Inr cardProgram, t1)"
    and "decimalsOutcome env = Inr decimals"
    and "parseUnits lib (numberToString lib (totalPrice (params_quote params))) decimals
           = Inr parsedAmount"
    and "balanceOfOutcome env = Inr usdcBalance"
    and "\<not> parsedAmount > usdcBalance"
    and "cardConfigOutcome env = Inr cardConfig"
  shows
    "((\<exists>a b. fst (purchaseCardWithUsdc service lib env params)
              = Inl (CardPurchaseAmountOutOfRangeError a b))
        \<longleftrightarrow> parsedAmount < minCardAmount cardConfig \<or> parsedAmount > maxCardAmount cardConfig) \<and>
     (parsedAmount < minCardAmount cardConfig \<or> parsedAmount > maxCardAmount cardConfig \<longrightarrow>
        purchaseCardWithUsdc service lib env params =
          (Inl (CardPurchaseAmountOutOfRangeError
                  (formatUnits lib (minCardAmount cardConfig) decimals)
                  (formatUnits lib (maxCardAmount cardConfig) decimals)),
           t1 @ [CallDecimals, CallBalanceOf, CallCardConfig])) \<and>
     (minCardAmount cardConfig \<le> maxCardAmount cardConfig \<and>
      (parsedAmount = minCardAmount cardConfig \<or> parsedAmount = maxCardAmount cardConfig) \<longrightarrow>
        (\<forall>a b. fst (purchaseCardWithUsdc service lib env params)
                 \<noteq> Inl (CardPurchaseAmountOutOfRangeError a b)))"
proof -
  have thrown: "purchaseCardWithUsdc service lib env params =
          (Inl (CardPurchaseAmountOutOfRangeError
                  (formatUnits lib (minCardAmount cardConfig) decimals)
                  (formatUnits lib (maxCardAmount cardConfig) decimals)),
           t1 @ [CallDecimals, CallBalanceOf, CallCardConfig])"
    if out: "parsedAmount < minCardAmount cardConfig \<or> parsedAmount > maxCardAmount cardConfig"
    by (simp add: purchaseCardWithUsdc_def andThen_def assms(1)
          checkFunds_out_of_range [OF assms(2-6) out])
  have passes: "fst (purchaseCardWithUsdc service lib env params)
        \<noteq> Inl (CardPurchaseAmountOutOfRangeError a b)"
    if within: "\<not> (parsedAmount < minCardAmount cardConfig \<or> parsedAmount > maxCardAmount cardConfig)"
    for a b
  proof
    assume "fst (purchaseCardWithUsdc service lib env params)
        = Inl (CardPurchaseAmountOutOfRangeError a b)"
    from purchase_error_cases [OF this] checkFunds_in_range [OF assms(2-6) within, of a b]
    show False by (simp add: assms(1))
  qed
  have exactly: "(\<exists>a b. fst (purchaseCardWithUsdc service lib env params)
              = Inl (CardPurchaseAmountOutOfRangeError a b))
        \<longleftrightarrow> parsedAmount < minCardAmount cardConfig \<or> parsedAmount > maxCardAmount cardConfig"
  proof
    assume "\<exists>a b. fst (purchaseCardWithUsdc service lib env params)
              = Inl (CardPurchaseAmountOutOfRangeError a b)"
    with passes
    show "parsedAmount < minCardAmount cardConfig \<or> parsedAmount > maxCardAmount cardConfig"
      by blast
  next
    assume "parsedAmount < minCardAmount cardConfig \<or> parsedAmount > maxCardAmount cardConfig"
    from thrown [OF this]
    show "\<exists>a b. fst (purchaseCardWithUsdc service lib env params)
              = Inl (CardPurchaseAmountOutOfRangeError a b)"
      by simp
  qed
  have bounds: "\<forall>a b. fst (purchaseCardWithUsdc service lib env params)
                 \<noteq> Inl (CardPurchaseAmountOutOfRangeError a b)"
    if "minCardAmount cardConfig \<le> maxCardAmount cardConfig \<and>
      (parsedAmount = minCardAmount cardConfig \<or> parsedAmount = maxCardAmount cardConfig)"
  proof -
    from that
    have "\<not> (parsedAmount < minCardAmount cardConfig \<or> parsedAmount > maxCardAmount cardConfig)"
      by auto
    with passes show ?thesis by blast
  qed
  from exactly thrown bounds show ?thesis by blast
qed

theorem range_check_bounds_inclusive_witness:
  "purchaseCardWithUsdc exampleService exampleLib narrowEnv exampleParams =
     (Inl (CardPurchaseAmountOutOfRangeError ''20.0'' ''1000.0''),
      [CallPing, CallFetchPrograms ''NPL'', CallDecimals, CallBalanceOf, CallCardConfig]) \<and>
   (\<nexists>a b. fst (purchaseCardWithUsdc exampleService exampleLib exampleEnv exampleParams)
           = Inl (CardPurchaseAmountOutOfRangeError a b))"
proof -
  have validated: "validateRequest exampleLib narrowEnv exampleParams =
      (Inr exampleProgram, [CallPing, CallFetchPrograms ''NPL''])"
    by (simp add: validateRequest_def ping_def fetchZebecCardPrograms_def step_defs example_defs
          narrowEnv_def example_email_valid example_token_lower strictNotEqual_def
          formatAmount_def quoteExpired_def)
  have amount: "parseUnits exampleLib (numberToString exampleLib (totalPrice (params_quote exampleParams))) 6
      = Inr 10500000"
    by (simp add: example_defs)
  have below: "(10500000::int) < minCardAmount \<lparr> minCardAmount = 20000000,
      maxCardAmount = 1000000000, dailyCardBuyLimit = 5000000000 \<rparr>"
    by simp
  have within: "\<not> ((10500000::int) < minCardAmount \<lparr> minCardAmount = 1000000,
        maxCardAmount = 1000000000, dailyCardBuyLimit = 5000000000 \<rparr> \<or>
      (10500000::int) > maxCardAmount \<lparr> minCardAmount = 1000000,
        maxCardAmount = 1000000000, dailyCardBuyLimit = 5000000000 \<rparr>)"
    by simp
  have enough: "\<not> (10500000::int) > 1000000000" by simp
  have decimals_read: "decimalsOutcome narrowEnv = Inr 6"
    and balance_read: "balanceOfOutcome narrowEnv = Inr 1000000000"
    and config_read: "cardConfigOutcome narrowEnv = Inr \<lparr> minCardAmount = 20000000,
      maxCardAmount = 1000000000, dailyCardBuyLimit = 5000000000 \<rparr>"
    by (simp_all add: narrowEnv_def exampleEnv_def)
  have decimals_read': "decimalsOutcome exampleEnv = Inr 6"
    and balance_read': "balanceOfOutcome exampleEnv = Inr 1000000000"
    and config_read': "cardConfigOutcome exampleEnv = Inr \<lparr> minCardAmount = 1000000,
      maxCardAmount = 1000000000, dailyCardBuyLimit = 5000000000 \<rparr>"
    by (simp_all add: exampleEnv_def)
  note narrow = range_check_bounds_inclusive
    [OF validated decimals_read amount balance_read enough config_read, of exampleService]
  have "purchaseCardWithUsdc exampleService exampleLib narrowEnv exampleParams =
     (Inl (CardPurchaseAmountOutOfRangeError ''20.0'' ''1000.0''),
      [CallPing, CallFetchPrograms ''NPL'', CallDecimals, CallBalanceOf, CallCardConfig])"
    using narrow below by (simp add: exampleLib_def)
  moreover
  note wide = range_check_bounds_inclusive
    [OF example_validateRequest decimals_read' amount balance_read' enough config_read',
      of exampleService]
  have "\<nexists>a b. fst (purchaseCardWithUsdc exampleService exampleLib exampleEnv exampleParams)
           = Inl (CardPurchaseAmountOutOfRangeError a b)"
    using wide within by simp
  ultimately show ?thesis by simp
qed

subsection \<open>The approval\<close>

lemma approveIfNeeded_read:
  assumes "allowanceOutcome env = Inr allowance"
  shows "approveIfNeeded env parsedAmount =
     (if allowance < parsedAmount then
        (case approveOutcome env parsedAmount of
           Inl x \<Rightarrow> (Inl (External x), [CallAllowance, CallApprove parsedAmount])
         | Inr approveResponse \<Rightarrow>
             (case approveWaitOutcome env of
                Inl x \<Rightarrow> (Inl (External x), [CallAllowance, CallApprove parsedAmount, CallApproveWait])
              | Inr approveReceipt \<Rightarrow>
                  (Inr (), [CallAllowance, CallApprove parsedAmount, CallApproveWait])))
      else (Inr (), [CallAllowance]))"
  using assms by (simp add: approveIfNeeded_def step_defs split: sum.splits)

text \<open>The calls of the approval step: the approval, if any, is the only one and is for the
  amount; no purchase is among them; and the step returns after an approval only when the
  wait for it has returned.\<close>

lemma approveIfNeeded_shape:
  assumes "allowanceOutcome env = Inr allowance"
  shows "filter isApprove (snd (approveIfNeeded env parsedAmount)) =
           (if allowance < parsedAmount then [CallApprove parsedAmount] else [])"
    and "\<not> list_ex isBuy (snd (approveIfNeeded env parsedAmount))"
    and "fst (approveIfNeeded env parsedAmount) = Inr u \<Longrightarrow> allowance < parsedAmount \<Longrightarrow>
           (\<exists>approveResponse. approveOutcome env parsedAmount = Inr approveResponse) \<and>
           (\<exists>approveReceipt. approveWaitOutcome env = Inr approveReceipt) \<and>
           CallApproveWait \<in> set (snd (approveIfNeeded env parsedAmount))"
  unfolding approveIfNeeded_read [OF assms]
  by (auto split: sum.splits)

text \<open>What follows the approval step: calls that are neither approvals nor waits for one,
  and none at all when the step threw.\<close>

lemma buy_is_no_approval: "isBuy c \<Longrightarrow> \<not> isApprove c"
  by (cases c) auto

lemma andThen_throws: "m = (Inl e, t) \<Longrightarrow> andThen m f = (Inl e, t)"
  by (simp add: andThen_def)

lemma purchase_after_funds:
  assumes "validateRequest lib env params = (Inr cardProgram, t1)"
    and "checkFunds lib env (params_quote params) = (Inr parsedAmount, t2)"
  shows "\<exists>rest. snd (purchaseCardWithUsdc service lib env params) =
            t1 @ t2 @ snd (approveIfNeeded env parsedAmount) @ rest \<and>
          ((\<exists>e. fst (approveIfNeeded env parsedAmount) = Inl e) \<longrightarrow> rest = []) \<and>
          (\<forall>c \<in> set rest. \<not> isApprove c)"
proof -
  define tail where "tail =
    andThen (buyCard lib env params cardProgram parsedAmount) (\<lambda>buyCardReceipt.
    andThen (buildPayload service env params buyCardReceipt) (\<lambda>payload.
      submitWithRetry env payload buyCardReceipt 0 1000 0))"
  define approval where "approval = andThen (approveIfNeeded env parsedAmount) (\<lambda>approved. tail)"
  have whole: "snd (purchaseCardWithUsdc service lib env params) = t1 @ t2 @ snd approval"
    by (simp add: purchaseCardWithUsdc_def andThen_Inr [OF assms(1)] andThen_Inr [OF assms(2)]
          approval_def tail_def)
  have quiet: "\<not> isApprove c" if "c \<in> set (snd tail)" for c
    using that unfolding tail_def
    by (auto dest!: andThen_calls
          dest: buyCard_calls buildPayload_calls submitWithRetry_calls buy_is_no_approval)
  obtain r3 t3 where step: "approveIfNeeded env parsedAmount = (r3, t3)"
    by (cases "approveIfNeeded env parsedAmount") auto
  show ?thesis
  proof (cases r3)
    case (Inl e)
    with step have "approval = (Inl e, t3)"
      unfolding approval_def by (intro andThen_throws) simp
    with whole step show ?thesis by simp
  next
    case (Inr u)
    with step have "approval = (fst tail, t3 @ snd tail)"
      unfolding approval_def by (intro andThen_Inr) simp
    with whole step Inr quiet show ?thesis by auto
  qed
qed

text \<open>
  C5. For a purchase that reaches the approval step (the validation and the checks on the
  funds have returned, and the allowance has been read), the calls of
  \<^verbatim>\<open>purchaseCardWithUsdc\<close> contain an approval exactly when the allowance is strictly less
  than the amount; there is then one approval, for exactly the amount. When a purchase
  transaction is sent after an approval, the approval and the wait for its finalization
  have both returned, and the wait comes before the purchase. When the allowance is at
  least the amount, no approval is sent.
\<close>

theorem approval_exactly_when_needed:
  assumes "validateRequest lib env params = (Inr cardProgram, t1)"
    and "checkFunds lib env (params_quote params) = (Inr parsedAmount, t2)"
    and "allowanceOutcome env = Inr allowance"
  shows
    "(list_ex isApprove (snd (purchaseCardWithUsdc service lib env params))
        \<longleftrightarrow> allowance < parsedAmount) \<and>
     filter isApprove (snd (purchaseCardWithUsdc service lib env params)) =
        (if allowance < parsedAmount then [CallApprove parsedAmount] else []) \<and>
     (allowance < parsedAmount \<and>
      list_ex isBuy (snd (purchaseCardWithUsdc service lib env params)) \<longrightarrow>
        (\<exists>approveResponse. approveOutcome env parsedAmount = Inr approveResponse) \<and>
        (\<exists>approveReceipt. approveWaitOutcome env = Inr approveReceipt) \<and>
        CallApproveWait \<in> set (takeWhile (\<lambda>c. \<not> isBuy c)
                                 (snd (purchaseCardWithUsdc service lib env params)))) \<and>
     (allowance \<ge> parsedAmount \<longrightarrow>
        \<not> list_ex isApprove (snd (purchaseCardWithUsdc service lib env params)))"
proof -
  let ?T = "snd (purchaseCardWithUsdc service lib env params)"
  let ?t3 = "snd (approveIfNeeded env parsedAmount)"
  obtain rest where T: "?T = t1 @ t2 @ ?t3 @ rest"
    and stopped: "(\<exists>e. fst (approveIfNeeded env parsedAmount) = Inl e) \<longrightarrow> rest = []"
    and rest: "\<forall>c \<in> set rest. \<not> isApprove c"
    using purchase_after_funds [OF assms(1,2), of service] by blast
  have t1: "\<not> isApprove c \<and> \<not> isBuy c" if "c \<in> set t1" for c
    using validateRequest_calls [of c lib env params] that by (auto simp: assms(1))
  have t2: "\<not> isApprove c \<and> \<not> isBuy c" if "c \<in> set t2" for c
    using checkFunds_calls [of c lib env "params_quote params"] that by (auto simp: assms(2))
  have t3: "\<not> isBuy c" if "c \<in> set ?t3" for c
    using approveIfNeeded_shape(2) [OF assms(3), of parsedAmount] that
    by (auto simp: list_ex_iff)
  have approvals: "filter isApprove ?T =
      (if allowance < parsedAmount then [CallApprove parsedAmount] else [])"
  proof -
    have "filter isApprove t1 = []" "filter isApprove t2 = []" "filter isApprove rest = []"
      using t1 t2 rest by (auto simp: filter_empty_conv)
    then have "filter isApprove ?T = filter isApprove ?t3"
      by (simp add: T)
    then show ?thesis
      by (simp only: approveIfNeeded_shape(1) [OF assms(3)])
  qed
  have some: "list_ex isApprove ?T \<longleftrightarrow> allowance < parsedAmount"
  proof -
    have "list_ex isApprove ?T \<longleftrightarrow> filter isApprove ?T \<noteq> []"
      by (auto simp: list_ex_iff filter_empty_conv)
    then show ?thesis by (simp add: approvals)
  qed
  have ordered: "(\<exists>approveResponse. approveOutcome env parsedAmount = Inr approveResponse) \<and>
        (\<exists>approveReceipt. approveWaitOutcome env = Inr approveReceipt) \<and>
        CallApproveWait \<in> set (takeWhile (\<lambda>c. \<not> isBuy c) ?T)"
    if needed: "allowance < parsedAmount" and bought: "list_ex isBuy ?T"
  proof -
    from bought t1 t2 t3 have "list_ex isBuy rest"
      by (auto simp: T list_ex_iff)
    then have "rest \<noteq> []" by auto
    with stopped have "\<not> (\<exists>e. fst (approveIfNeeded env parsedAmount) = Inl e)" by blast
    then obtain u where returned: "fst (approveIfNeeded env parsedAmount) = Inr u"
      by (cases "fst (approveIfNeeded env parsedAmount)") auto
    note waited = approveIfNeeded_shape(3) [OF assms(3) returned needed]
    have "takeWhile (\<lambda>c. \<not> isBuy c) ?T =
        (t1 @ t2 @ ?t3) @ takeWhile (\<lambda>c. \<not> isBuy c) rest"
      unfolding T append_assoc [symmetric]
      by (rule takeWhile_append2) (use t1 t2 t3 in auto)
    with waited show ?thesis by simp
  qed
  have none: "\<not> list_ex isApprove ?T" if "allowance \<ge> parsedAmount"
    using some that by simp
  from some approvals ordered none show ?thesis by blast
qed

theorem approval_exactly_when_needed_witness:
  "filter isApprove (snd (purchaseCardWithUsdc exampleService exampleLib exampleEnv exampleParams))
     = [CallApprove 10500000] \<and>
   CallApproveWait \<in> set (takeWhile (\<lambda>c. \<not> isBuy c)
     (snd (purchaseCardWithUsdc exampleService exampleLib exampleEnv exampleParams))) \<and>
   filter isApprove (snd (purchaseCardWithUsdc exampleService exampleLib allowedEnv exampleParams))
     = []"
proof -
  have read: "allowanceOutcome exampleEnv = Inr 0"
    by (simp add: exampleEnv_def)
  have bought: "list_ex isBuy
      (snd (purchaseCardWithUsdc exampleService exampleLib exampleEnv exampleParams))"
    by (simp add: example_purchase exampleCalls_def)
  note needed = approval_exactly_when_needed
    [OF example_validateRequest example_checkFunds [folded example_quote] read,
      of exampleService]
  have first: "filter isApprove
      (snd (purchaseCardWithUsdc exampleService exampleLib exampleEnv exampleParams))
        = [CallApprove 10500000]"
    using needed by simp
  have second: "CallApproveWait \<in> set (takeWhile (\<lambda>c. \<not> isBuy c)
      (snd (purchaseCardWithUsdc exampleService exampleLib exampleEnv exampleParams)))"
    using needed bought by simp
  have validated: "validateRequest exampleLib allowedEnv exampleParams =
      (Inr exampleProgram, [CallPing, CallFetchPrograms ''NPL''])"
    by (simp add: validateRequest_def ping_def fetchZebecCardPrograms_def step_defs example_defs
          allowedEnv_def example_email_valid example_token_lower strictNotEqual_def
          formatAmount_def quoteExpired_def)
  have funded: "checkFunds exampleLib allowedEnv (params_quote exampleParams) =
      (Inr 10500000, [CallDecimals, CallBalanceOf, CallCardConfig, CallCardPurchases])"
    using example_other_day
    by (simp add: checkFunds_def cardPurchaseOfDay_def step_defs example_defs allowedEnv_def)
  have read': "allowanceOutcome allowedEnv = Inr 10500000"
    by (simp add: allowedEnv_def)
  note enough = approval_exactly_when_needed [OF validated funded read', of exampleService]
  have third: "filter isApprove
      (snd (purchaseCardWithUsdc exampleService exampleLib allowedEnv exampleParams)) = []"
    using enough by simp
  from first second third show ?thesis by simp
qed

end
